theory Spec2Isabelle
  imports Complex_Main
begin

section \<open>Connection resilience controller of rustplusplus-enhanced\<close>

text \<open>
  The development embeds the JavaScript classes \<open>ReconnectionManager\<close>,
  \<open>ConnectionHealthMonitor\<close> (both variants found in the sources) and
  \<open>AutoReconnectManager\<close>, the transport error handler of \<open>discordEvents/error.js\<close>
  and the two command handlers of \<open>commands/connection.js\<close> that drive them.

  JavaScript objects are mutable and shared by reference. The per-tenant retry
  state objects and the connection objects therefore live in explicit stores indexed
  by addresses; the registries (\<open>reconnectionStates\<close>, \<open>rustplusInstances\<close>) map a
  guild id to an address, and a timer callback that closed over an object carries
  the address of that object. Timers of the JavaScript runtime are a list of pending
  entries; firing one is an explicit step. Every value the code obtains from outside
  (\<open>Date.now()\<close>, \<open>Math.random()\<close>, the outcome of a request or of the connection
  factory) is an argument of the embedded function.
\<close>

subsection \<open>Data model\<close>

type_synonym guildId = string
type_synonym timerId = nat
type_synonym addr = nat

text \<open>The object literal passed as \<open>connectionParams\<close> to \<open>attemptReconnection\<close>.\<close>

record connectionParams =
  server :: string
  port :: nat
  playerId :: string
  playerToken :: string

text \<open>\<open>this.config\<close> of \<open>ReconnectionManager\<close>. All entries are millisecond or
  counter values; they are natural numbers here.\<close>

record rmConfig =
  baseDelay :: nat
  maxDelay :: nat
  maxRetries :: nat
  backoffMultiplier :: nat
  resetAfterSuccess :: nat

text \<open>The defaults of the constructor, taken when the configuration file gives no value.\<close>

definition defaultConfig :: rmConfig where
  "defaultConfig =
     \<lparr>baseDelay = 15000, maxDelay = 300000, maxRetries = 10,
      backoffMultiplier = 2, resetAfterSuccess = 60000\<rparr>"

text \<open>One entry of \<open>reconnectionStates\<close>, as built by \<open>initializeState\<close>.\<close>

record reconnState =
  isReconnecting :: bool
  retryCount :: nat
  currentDelay :: nat
  timer :: "timerId option"
  lastAttempt :: "nat option"
  reconnectionReason :: "string option"

text \<open>The four fields of \<open>info.info\<close> that the enhanced monitor reads; the object
  \<open>currentServerInfo\<close> it builds has the same four fields.\<close>

record serverInfo =
  name :: string
  seed :: nat
  mapSize :: nat
  wipeTime :: nat

text \<open>A \<open>RustPlus\<close> connection object, restricted to the fields the modelled code
  touches.\<close>

record rustplus =
  rp_guildId :: guildId
  rp_server :: string
  rp_port :: nat
  rp_playerId :: string
  rp_playerToken :: string
  isOperational :: bool
  isDeleted :: bool
  isNewConnection :: bool
  lastServerInfo :: "serverInfo option"

text \<open>One entry of \<open>instance.serverList\<close> and the per-guild instance configuration.\<close>

record serverEntry =
  serverIp :: string
  appPort :: nat
  steamId :: string
  se_playerToken :: string

record guildInstance =
  activeServer :: "string option"
  serverList :: "string \<rightharpoonup> serverEntry"

text \<open>The three closures handed to \<open>setTimeout\<close> by \<open>ReconnectionManager\<close>:
  the reconnection timer of \<open>attemptReconnection\<close> (it closes over the state object),
  the one-second timer of its \<open>catch\<close> branch, and the timer of
  \<open>markSuccessfulConnection\<close>.\<close>

datatype callback =
    ReconnectionTimer addr guildId string connectionParams
  | NextAttemptTimer guildId string connectionParams
  | RetryCounterReset guildId

text \<open>Calls to collaborators outside the modelled classes, recorded in order.\<close>

datatype extcall =
    CreateRustplusInstance guildId string nat string string
  | Disconnect addr
  | ResetRustplusVariables guildId

datatype logLevel = infoCap | warningCap | errorCap

text \<open>One constructor for each \<open>client.log\<close> call of the modelled code, with the values
  interpolated into its message.\<close>

datatype logMessage =
    RetryCounterResetMsg guildId
  | AlreadyInProgress guildId
  | MaximumAttemptsReached nat guildId
  | ImmediateReconnection guildId
  | AttemptingReconnection nat nat guildId string nat
  | AttemptFailed guildId string
  | ExecutingAttempt nat guildId
  | ReconnectionSuccessful guildId nat
  | ReconnectionFailed guildId string
  | HealthCheckPassed guildId nat
  | HealthCheckFailed guildId nat nat string
  | HealthCheckTriggering nat guildId
  | RestartWipeDetected guildId
  | LikelyRestartTime guildId
  | AutoReconnecting guildId string
  | NoServerInfo string guildId
  | StartingAutoReconnection guildId string string nat
  | AutoReconnectionInitiated guildId
  | AutoReconnectionFailed guildId string
  | ForceReconnecting guildId

text \<open>The whole mutable state: the fields of the Discord client that the modelled code
  reads or writes, the fields of \<open>client.reconnectionManager\<close> and of
  \<open>client.connectionHealthMonitor\<close>, the pending timers of the runtime, and the two
  records of what was said to the outside (\<open>calls\<close>, \<open>logs\<close>).\<close>

record bot =
  rustplusObjects :: "addr \<Rightarrow> rustplus"
  nextRustplus :: addr
  rustplusInstances :: "guildId \<rightharpoonup> addr"
  activeRustplusInstances :: "guildId \<rightharpoonup> bool"
  rustplusReconnecting :: "guildId \<rightharpoonup> bool"
  instances :: "guildId \<rightharpoonup> guildInstance"
  config :: rmConfig
  stateObjects :: "addr \<Rightarrow> reconnState"
  nextState :: addr
  reconnectionStates :: "guildId \<rightharpoonup> addr"
  successfulConnections :: "guildId \<rightharpoonup> nat"
  lastHealthCheck :: "guildId \<rightharpoonup> nat"
  consecutiveFailures :: "guildId \<rightharpoonup> nat"
  maxConsecutiveFailures :: nat
  healthCheckTimeout :: nat
  lastSuccessfulCheck :: "guildId \<rightharpoonup> nat"
  timers :: "(timerId \<times> nat \<times> callback) list"
  nextTimer :: timerId
  calls :: "extcall list"
  logs :: "(logLevel \<times> logMessage) list"

subsection \<open>Runtime services\<close>

definition log :: "logLevel \<Rightarrow> logMessage \<Rightarrow> bot \<Rightarrow> bot" where
  "log lvl msg c = c\<lparr>logs := logs c @ [(lvl, msg)]\<rparr>"

text \<open>\<open>setTimeout\<close> returns the handle of the new timer; \<open>clearTimeout\<close> on a handle that
  is no longer pending does nothing.\<close>

definition setTimeout :: "callback \<Rightarrow> nat \<Rightarrow> bot \<Rightarrow> timerId \<times> bot" where
  "setTimeout cb d c =
     (nextTimer c,
      c\<lparr>timers := timers c @ [(nextTimer c, d, cb)], nextTimer := Suc (nextTimer c)\<rparr>)"

definition clearTimeout :: "timerId \<Rightarrow> bot \<Rightarrow> bot" where
  "clearTimeout t c = c\<lparr>timers := filter (\<lambda>e. fst e \<noteq> t) (timers c)\<rparr>"

text \<open>The truth value JavaScript gives to a flag read from an object used as a
  dictionary: a missing key reads \<open>undefined\<close>.\<close>

definition truthy :: "bool option \<Rightarrow> bool" where
  "truthy v = (case v of None \<Rightarrow> False | Some b \<Rightarrow> b)"

datatype createOutcome = CreateThrows string | CreateReturns

text \<open>Modelled from the spec: \<open>DiscordBot.createRustplusInstance\<close> is not among the
  sources. The specification describes the connection factory as
  \<open>connect(endpoint, credentials) -> ConnectionHandle\<close>, a step that constructs a new
  connection against the endpoint and that may itself fail, and the operational flag
  as turning true only later. So the call is recorded, and it either throws or
  registers a new connection object for the tenant, not yet operational, and returns
  it.\<close>

definition createRustplusInstance ::
  "guildId \<Rightarrow> string \<Rightarrow> nat \<Rightarrow> string \<Rightarrow> string \<Rightarrow> createOutcome \<Rightarrow> bot \<Rightarrow> (string + addr) \<times> bot" where
  "createRustplusInstance g ip prt pid tok outcome c =
     (let c1 = c\<lparr>calls := calls c @ [CreateRustplusInstance g ip prt pid tok]\<rparr> in
      case outcome of
        CreateThrows msg \<Rightarrow> (Inl msg, c1)
      | CreateReturns \<Rightarrow>
          (Inr (nextRustplus c1),
           c1\<lparr>rustplusObjects := (rustplusObjects c1)(nextRustplus c1 :=
                  \<lparr>rp_guildId = g, rp_server = ip, rp_port = prt, rp_playerId = pid,
                   rp_playerToken = tok, isOperational = False, isDeleted = False,
                   isNewConnection = False, lastServerInfo = None\<rparr>),
               rustplusInstances := (rustplusInstances c1)(g \<mapsto> nextRustplus c1),
               nextRustplus := Suc (nextRustplus c1)\<rparr>))"

subsection \<open>ReconnectionManager\<close>

definition initializeState :: "guildId \<Rightarrow> bot \<Rightarrow> bot" where
  "initializeState g c =
     (case reconnectionStates c g of
        Some a \<Rightarrow> c
      | None \<Rightarrow>
          c\<lparr>stateObjects := (stateObjects c)(nextState c :=
                \<lparr>isReconnecting = False, retryCount = 0,
                 currentDelay = baseDelay (config c), timer = None,
                 lastAttempt = None, reconnectionReason = None\<rparr>),
            reconnectionStates := (reconnectionStates c)(g \<mapsto> nextState c),
            nextState := Suc (nextState c)\<rparr>)"

definition resetState :: "guildId \<Rightarrow> bot \<Rightarrow> bot" where
  "resetState g c =
     (case reconnectionStates c g of
        None \<Rightarrow> c
      | Some a \<Rightarrow>
          (let c1 = (case timer (stateObjects c a) of
                       Some t \<Rightarrow> clearTimeout t c
                     | None \<Rightarrow> c)
           in c1\<lparr>reconnectionStates := (reconnectionStates c1)(g := None)\<rparr>))"

definition markSuccessfulConnection :: "guildId \<Rightarrow> nat \<Rightarrow> bot \<Rightarrow> bot" where
  "markSuccessfulConnection g now c =
     snd (setTimeout (RetryCounterReset g) (resetAfterSuccess (config c))
            (c\<lparr>successfulConnections := (successfulConnections c)(g \<mapsto> now)\<rparr>))"

text \<open>\<open>shouldAttemptReconnection\<close> returns its verdict together with the state it leaves
  behind (it may create the entry and it logs a rejection). The entry exists after
  \<open>initializeState\<close>; the branch for a missing entry is there only to make the
  function total.\<close>

definition shouldAttemptReconnection :: "guildId \<Rightarrow> string \<Rightarrow> bot \<Rightarrow> bool \<times> bot" where
  "shouldAttemptReconnection g reason c =
     (let c1 = initializeState g c in
      case reconnectionStates c1 g of
        None \<Rightarrow> (False, c1)
      | Some a \<Rightarrow>
          if isReconnecting (stateObjects c1 a)
          then (False, log warningCap (AlreadyInProgress g) c1)
          else if retryCount (stateObjects c1 a) \<ge> maxRetries (config c1)
          then (False, log errorCap (MaximumAttemptsReached (maxRetries (config c1)) g) c1)
          else (True, c1))"

definition calculateDelay :: "rmConfig \<Rightarrow> nat \<Rightarrow> nat" where
  "calculateDelay cfg n = min (baseDelay cfg * backoffMultiplier cfg ^ n) (maxDelay cfg)"

text \<open>\<open>Math.floor(delay + Math.random() * 0.25 * delay)\<close>. The code evaluates this
  expression in double-precision floating point, whose rounding is not reproduced
  here. The number drawn by \<open>Math.random()\<close> is therefore given as the function \<open>rnd\<close>
  that maps every delay to the value the whole expression takes for that number.
  \<open>zeroDraw\<close> is this function for the number 0, where the product is 0 and the sum
  is the delay itself; \<open>eighthDraw\<close> is one that adds an eighth of the delay.\<close>

type_synonym draw = "nat \<Rightarrow> nat"

definition addJitter :: "draw \<Rightarrow> nat \<Rightarrow> nat" where
  "addJitter rnd delay = rnd delay"

definition zeroDraw :: draw where
  "zeroDraw delay = delay"


definition attemptReconnection ::
  "guildId \<Rightarrow> string \<Rightarrow> connectionParams \<Rightarrow> draw \<Rightarrow> nat \<Rightarrow> bot \<Rightarrow> bot" where
  "attemptReconnection g reason params rnd now c =
     (case shouldAttemptReconnection g reason c of
        (False, c1) \<Rightarrow> c1
      | (True, c1) \<Rightarrow>
          (let c2 = initializeState g c1 in
           case reconnectionStates c2 g of
             None \<Rightarrow> c2
           | Some a \<Rightarrow>
               (let s = stateObjects c2 a;
                    s1 = s\<lparr>isReconnecting := True, retryCount := retryCount s + 1,
                           lastAttempt := Some now, reconnectionReason := Some reason\<rparr>;
                    baseDelay' = calculateDelay (config c2) (retryCount s1 - 1);
                    jittered = addJitter rnd baseDelay';
                    restart = (reason = ''server_restart_detected'');
                    delayWithJitter = (if restart then 0 else jittered);
                    c3 = (if restart then log infoCap (ImmediateReconnection g) c2 else c2);
                    s2 = s1\<lparr>currentDelay := delayWithJitter\<rparr>;
                    c4 = log infoCap
                           (AttemptingReconnection (retryCount s2) (maxRetries (config c3)) g
                              reason (delayWithJitter div 1000)) c3;
                    c5 = (case timer s2 of Some t \<Rightarrow> clearTimeout t c4 | None \<Rightarrow> c4);
                    (t, c6) = setTimeout (ReconnectionTimer a g reason params) delayWithJitter c5
                in c6\<lparr>stateObjects := (stateObjects c6)(a := s2\<lparr>timer := Some t\<rparr>)\<rparr>)))"

text \<open>\<open>performReconnection\<close> returns the message of the exception it throws, if any,
  with the state reached at that point. Reading \<open>state.retryCount\<close> of a missing entry
  is a \<open>TypeError\<close>.\<close>

definition performReconnection ::
  "guildId \<Rightarrow> connectionParams \<Rightarrow> createOutcome \<Rightarrow> bot \<Rightarrow> string option \<times> bot" where
  "performReconnection g params outcome c =
     (case reconnectionStates c g of
        None \<Rightarrow> (Some ''TypeError'', c)
      | Some a \<Rightarrow>
          (let c1 = log infoCap (ExecutingAttempt (retryCount (stateObjects c a)) g) c;
               c2 = (case rustplusInstances c1 g of
                       Some r \<Rightarrow> c1\<lparr>rustplusInstances := (rustplusInstances c1)(g := None)\<rparr>
                     | None \<Rightarrow> c1)
           in case createRustplusInstance g (server params) (port params) (playerId params)
                     (playerToken params) outcome c2 of
                (Inl msg, c3) \<Rightarrow> (Some msg, c3)
              | (Inr r, c3) \<Rightarrow> (None, c3)))"

definition handleSuccessfulReconnection :: "guildId \<Rightarrow> nat \<Rightarrow> bot \<Rightarrow> bot" where
  "handleSuccessfulReconnection g now c =
     (case reconnectionStates c g of
        None \<Rightarrow> c
      | Some a \<Rightarrow>
          (let c1 = log infoCap (ReconnectionSuccessful g (retryCount (stateObjects c a))) c;
               c2 = c1\<lparr>stateObjects := (stateObjects c1)(a :=
                         (stateObjects c1 a)\<lparr>isReconnecting := False\<rparr>)\<rparr>
           in markSuccessfulConnection g now c2))"

definition handleFailedReconnection :: "guildId \<Rightarrow> string \<Rightarrow> bot \<Rightarrow> bot" where
  "handleFailedReconnection g reason c =
     (case reconnectionStates c g of
        None \<Rightarrow> c
      | Some a \<Rightarrow>
          log warningCap (ReconnectionFailed g reason)
            (c\<lparr>stateObjects := (stateObjects c)(a :=
                  (stateObjects c a)\<lparr>isReconnecting := False\<rparr>)\<rparr>))"

text \<open>One turn of the event loop for a timer: if the handle is still pending it is
  removed and its closure runs. The closure of the reconnection timer catches the
  exception of \<open>performReconnection\<close>, releases the state object it closed over and,
  below the retry ceiling, asks for the next attempt one second later.\<close>

definition fireTimer :: "timerId \<Rightarrow> createOutcome \<Rightarrow> draw \<Rightarrow> nat \<Rightarrow> bot \<Rightarrow> bot" where
  "fireTimer t outcome rnd now c =
     (case find (\<lambda>e. fst e = t) (timers c) of
        None \<Rightarrow> c
      | Some (i, d, cb) \<Rightarrow>
          (let c1 = clearTimeout t c in
           case cb of
             ReconnectionTimer a g reason params \<Rightarrow>
               (case performReconnection g params outcome c1 of
                  (None, c2) \<Rightarrow> c2
                | (Some msg, c2) \<Rightarrow>
                    (let c3 = log errorCap (AttemptFailed g msg) c2;
                         c4 = c3\<lparr>stateObjects := (stateObjects c3)(a :=
                                   (stateObjects c3 a)\<lparr>isReconnecting := False\<rparr>)\<rparr>
                     in if retryCount (stateObjects c4 a) < maxRetries (config c4)
                        then snd (setTimeout (NextAttemptTimer g reason params) 1000 c4)
                        else c4))
           | NextAttemptTimer g reason params \<Rightarrow> attemptReconnection g reason params rnd now c1
           | RetryCounterReset g \<Rightarrow>
               (case reconnectionStates c1 g of
                  None \<Rightarrow> c1
                | Some a \<Rightarrow>
                    log infoCap (RetryCounterResetMsg g)
                      (c1\<lparr>stateObjects := (stateObjects c1)(a :=
                             (stateObjects c1 a)\<lparr>retryCount := 0,
                                currentDelay := baseDelay (config c1)\<rparr>)\<rparr>))))"

text \<open>The state right after the constructors have run: nothing registered, no timer
  pending. The two arguments are the reconnection configuration and the failure
  threshold of the health monitor (3 in \<open>connectionHealthMonitor.js\<close>, 2 in the
  enhanced variant). Addresses that were never allocated hold a default object.\<close>

definition newBot :: "rmConfig \<Rightarrow> nat \<Rightarrow> bot" where
  "newBot cfg threshold =
     \<lparr>rustplusObjects = (\<lambda>a. \<lparr>rp_guildId = [], rp_server = [], rp_port = 0,
         rp_playerId = [], rp_playerToken = [], isOperational = False,
         isDeleted = False, isNewConnection = False, lastServerInfo = None\<rparr>),
      nextRustplus = 0,
      rustplusInstances = Map.empty,
      activeRustplusInstances = Map.empty,
      rustplusReconnecting = Map.empty,
      instances = Map.empty,
      config = cfg,
      stateObjects = (\<lambda>a. \<lparr>isReconnecting = False, retryCount = 0, currentDelay = 0,
         timer = None, lastAttempt = None, reconnectionReason = None\<rparr>),
      nextState = 0,
      reconnectionStates = Map.empty,
      successfulConnections = Map.empty,
      lastHealthCheck = Map.empty,
      consecutiveFailures = Map.empty,
      maxConsecutiveFailures = threshold,
      healthCheckTimeout = 10000,
      lastSuccessfulCheck = Map.empty,
      timers = [],
      nextTimer = 0,
      calls = [],
      logs = []\<rparr>"

subsection \<open>ConnectionHealthMonitor\<close>

text \<open>What the awaited \<open>getInfoAsync\<close> request came to: it threw, or it returned a
  response, given with the verdict of \<open>isResponseValid\<close> and with its \<open>info\<close> member if
  it has one. A probe either loses the race against the timeout or settles first.
  When the timeout wins, the request goes on in the background; what it does when
  it settles later is not part of this model.\<close>

datatype requestOutcome = RequestThrew string | Responded bool "serverInfo option"

datatype probeOutcome = TimedOut | Settled requestOutcome

definition paramsOf :: "rustplus \<Rightarrow> connectionParams" where
  "paramsOf r = \<lparr>server = rp_server r, port = rp_port r, playerId = rp_playerId r,
                 playerToken = rp_playerToken r\<rparr>"

definition triggerHealthCheckReconnection :: "guildId \<Rightarrow> addr \<Rightarrow> draw \<Rightarrow> nat \<Rightarrow> bot \<Rightarrow> bot" where
  "triggerHealthCheckReconnection g r rnd now c =
     (let c1 = c\<lparr>rustplusObjects := (rustplusObjects c)(r :=
                   (rustplusObjects c r)\<lparr>isOperational := False\<rparr>)\<rparr>
      in attemptReconnection g ''health_check_failure'' (paramsOf (rustplusObjects c1 r))
           rnd now c1)"

text \<open>\<open>handleHealthCheckFailure\<close> and \<open>triggerHealthCheckReconnection\<close> are the same text
  in both variants of the monitor. \<open>this.consecutiveFailures.get(guildId) || 0\<close> reads
  a missing entry as 0.\<close>

definition handleHealthCheckFailure ::
  "guildId \<Rightarrow> addr \<Rightarrow> string \<Rightarrow> draw \<Rightarrow> nat \<Rightarrow> bot \<Rightarrow> bot" where
  "handleHealthCheckFailure g r errorMessage rnd now c =
     (let currentFailures = (case consecutiveFailures c g of None \<Rightarrow> 0 | Some n \<Rightarrow> n) + 1;
          c1 = c\<lparr>consecutiveFailures := (consecutiveFailures c)(g \<mapsto> currentFailures)\<rparr>;
          c2 = log warningCap
                 (HealthCheckFailed g currentFailures (maxConsecutiveFailures c1) errorMessage) c1
      in if currentFailures \<ge> maxConsecutiveFailures c2
         then (let c3 = log errorCap (HealthCheckTriggering (maxConsecutiveFailures c2) g) c2;
                   c4 = c3\<lparr>consecutiveFailures := (consecutiveFailures c3)(g \<mapsto> 0)\<rparr>
               in triggerHealthCheckReconnection g r rnd now c4)
         else c2)"

text \<open>The monitor of \<open>connectionHealthMonitor.js\<close>.\<close>

definition performHealthCheckRequest :: "requestOutcome \<Rightarrow> string + serverInfo option" where
  "performHealthCheckRequest ro =
     (case ro of
        RequestThrew msg \<Rightarrow> Inl msg
      | Responded valid info \<Rightarrow>
          if \<not> valid then Inl ''Invalid health check response'' else Inr info)"

text \<open>\<open>startTime\<close> is the clock when the check starts, \<open>now\<close> the clock after the probe
  has settled; \<open>rnd\<close> is the random number drawn if a reconnection is accepted in this
  turn.\<close>

definition checkConnectionHealth ::
  "guildId \<Rightarrow> addr \<Rightarrow> probeOutcome \<Rightarrow> nat \<Rightarrow> draw \<Rightarrow> nat \<Rightarrow> bot \<Rightarrow> bot" where
  "checkConnectionHealth g r probe startTime rnd now c =
     (let c1 = c\<lparr>lastHealthCheck := (lastHealthCheck c)(g \<mapsto> startTime)\<rparr> in
      case probe of
        TimedOut \<Rightarrow> handleHealthCheckFailure g r ''Health check timeout'' rnd now c1
      | Settled ro \<Rightarrow>
          (case performHealthCheckRequest ro of
             Inl msg \<Rightarrow> handleHealthCheckFailure g r msg rnd now c1
           | Inr info \<Rightarrow>
               log infoCap (HealthCheckPassed g (now - startTime))
                 (c1\<lparr>consecutiveFailures := (consecutiveFailures c1)(g \<mapsto> 0)\<rparr>)))"

text \<open>The enhanced monitor (second class named \<open>ConnectionHealthMonitor\<close>, in
  \<open>rusthelpScraper.js\<close>): it keeps the identity of the server on the connection object
  and treats a change of seed, size or wipe time as a restart.\<close>

definition triggerServerRestartReconnection :: "guildId \<Rightarrow> addr \<Rightarrow> draw \<Rightarrow> nat \<Rightarrow> bot \<Rightarrow> bot" where
  "triggerServerRestartReconnection g r rnd now c =
     (let c1 = c\<lparr>rustplusObjects := (rustplusObjects c)(r :=
                   (rustplusObjects c r)\<lparr>isOperational := False\<rparr>)\<rparr>;
          c2 = c1\<lparr>calls := calls c1 @ [Disconnect r]\<rparr>
      in attemptReconnection g ''server_restart_detected'' (paramsOf (rustplusObjects c2 r))
           rnd now c2)"

text \<open>The guard \<open>info.info && info.info.name && info.info.seed\<close> holds when the response
  has an \<open>info\<close> member whose name is not the empty string and whose seed is not 0.\<close>

definition performHealthCheckRequest_enhanced ::
  "addr \<Rightarrow> requestOutcome \<Rightarrow> draw \<Rightarrow> nat \<Rightarrow> bot \<Rightarrow> (string + serverInfo option) \<times> bot" where
  "performHealthCheckRequest_enhanced r ro rnd now c =
     (case ro of
        RequestThrew msg \<Rightarrow> (Inl msg, c)
      | Responded valid info \<Rightarrow>
          if \<not> valid then (Inl ''Invalid health check response'', c)
          else (case info of
                  None \<Rightarrow> (Inr info, c)
                | Some currentServerInfo \<Rightarrow>
                    if name currentServerInfo \<noteq> [] \<and> seed currentServerInfo \<noteq> 0
                    then (case lastServerInfo (rustplusObjects c r) of
                            None \<Rightarrow>
                              (Inr info,
                               c\<lparr>rustplusObjects := (rustplusObjects c)(r :=
                                    (rustplusObjects c r)\<lparr>lastServerInfo := Some currentServerInfo\<rparr>)\<rparr>)
                          | Some stored \<Rightarrow>
                              if seed currentServerInfo \<noteq> seed stored
                                 \<or> mapSize currentServerInfo \<noteq> mapSize stored
                                 \<or> wipeTime currentServerInfo \<noteq> wipeTime stored
                              then (let c1 = c\<lparr>rustplusObjects := (rustplusObjects c)(r :=
                                               (rustplusObjects c r)\<lparr>lastServerInfo := Some currentServerInfo\<rparr>)\<rparr>;
                                        c2 = log infoCap
                                               (RestartWipeDetected (rp_guildId (rustplusObjects c1 r))) c1;
                                        c3 = triggerServerRestartReconnection
                                               (rp_guildId (rustplusObjects c2 r)) r rnd now c2
                                    in (Inl ''Server restart detected'', c3))
                              else (Inr info, c))
                    else (Inr info, c)))"

definition checkConnectionHealth_enhanced ::
  "guildId \<Rightarrow> addr \<Rightarrow> probeOutcome \<Rightarrow> nat \<Rightarrow> draw \<Rightarrow> nat \<Rightarrow> bot \<Rightarrow> bot" where
  "checkConnectionHealth_enhanced g r probe startTime rnd now c =
     (let c1 = c\<lparr>lastHealthCheck := (lastHealthCheck c)(g \<mapsto> startTime)\<rparr> in
      case probe of
        TimedOut \<Rightarrow> handleHealthCheckFailure g r ''Health check timeout'' rnd now c1
      | Settled ro \<Rightarrow>
          (case performHealthCheckRequest_enhanced r ro rnd now c1 of
             (Inl msg, c2) \<Rightarrow> handleHealthCheckFailure g r msg rnd now c2
           | (Inr info, c2) \<Rightarrow>
               log infoCap (HealthCheckPassed g (now - startTime))
                 (c2\<lparr>consecutiveFailures := (consecutiveFailures c2)(g \<mapsto> 0),
                     lastSuccessfulCheck := (lastSuccessfulCheck c2)(g \<mapsto> now)\<rparr>)))"

subsection \<open>Transport error handler\<close>

text \<open>\<open>triggerReconnection\<close> of \<open>discordEvents/error.js\<close>, the function every branch of
  the error handler ends in. Its first argument is the connection object that raised
  the error.\<close>

definition triggerReconnection :: "addr \<Rightarrow> string \<Rightarrow> draw \<Rightarrow> nat \<Rightarrow> bot \<Rightarrow> bot" where
  "triggerReconnection r reason rnd now c =
     (if isDeleted (rustplusObjects c r)
         \<or> \<not> truthy (activeRustplusInstances c (rp_guildId (rustplusObjects c r)))
      then c
      else attemptReconnection (rp_guildId (rustplusObjects c r)) reason
             (paramsOf (rustplusObjects c r)) rnd now c)"

subsection \<open>AutoReconnectManager\<close>

definition isLikelyServerRestartTime :: "nat \<Rightarrow> nat \<Rightarrow> bool" where
  "isLikelyServerRestartTime hour minute =
     ((hour \<ge> 0 \<and> hour \<le> 6) \<or> (minute \<ge> 0 \<and> minute \<le> 5))"

text \<open>The expression \<open>client.activeRustplusInstances[guildId] &&
  client.rustplusInstances[guildId] && client.rustplusInstances[guildId].isOperational\<close>,
  used by the sweep and by the command handler.\<close>

definition isCurrentlyConnected :: "guildId \<Rightarrow> bot \<Rightarrow> bool" where
  "isCurrentlyConnected g c =
     (truthy (activeRustplusInstances c g)
      \<and> (case rustplusInstances c g of
            None \<Rightarrow> False
          | Some r \<Rightarrow> isOperational (rustplusObjects c r)))"

text \<open>\<open>reconnectGuild\<close> of \<open>src/util/autoReconnectManager.js\<close>.
  \<open>client.resetRustplusVariables\<close> is not among the sources: it is the parameter \<open>rv\<close>,
  any function on the fields of the client; the records \<open>calls\<close> and \<open>logs\<close> are not
  fields of the client, so they pass it unchanged. Indexing \<open>serverList\<close> with \<open>null\<close>
  looks up the key \<open>"null"\<close>. Of the statements inside \<open>try\<close>, the connection factory
  is the one modelled as able to throw.\<close>

definition reconnectGuild ::
  "guildId \<Rightarrow> guildInstance \<Rightarrow> createOutcome \<Rightarrow> (guildId \<Rightarrow> bot \<Rightarrow> bot) \<Rightarrow> bot \<Rightarrow> bot" where
  "reconnectGuild g inst outcome rv c =
     (let serverId = (case activeServer inst of None \<Rightarrow> ''null'' | Some s \<Rightarrow> s) in
      case serverList inst serverId of
        None \<Rightarrow> log errorCap (NoServerInfo serverId g) c
      | Some serverInfo \<Rightarrow>
          (let c1 = log infoCap
                      (StartingAutoReconnection g serverId (serverIp serverInfo) (appPort serverInfo)) c;
               c2 = (rv g c1)\<lparr>calls := calls c1 @ [ResetRustplusVariables g], logs := logs c1\<rparr>;
               rustplus = rustplusInstances c2 g;
               c3 = c2\<lparr>instances := (instances c2)(g \<mapsto> inst)\<rparr>;
               c4 = (case rustplus of
                       None \<Rightarrow> c3
                     | Some r \<Rightarrow>
                         c3\<lparr>rustplusObjects := (rustplusObjects c3)(r :=
                               (rustplusObjects c3 r)\<lparr>isDeleted := True\<rparr>),
                            calls := calls c3 @ [Disconnect r],
                            rustplusInstances := (rustplusInstances c3)(g := None)\<rparr>);
               c5 = c4\<lparr>rustplusReconnecting := (rustplusReconnecting c4)(g \<mapsto> True)\<rparr>
           in case createRustplusInstance g (serverIp serverInfo) (appPort serverInfo)
                     (steamId serverInfo) (se_playerToken serverInfo) outcome c5 of
                (Inl msg, c6) \<Rightarrow>
                  (let c7 = log errorCap (AutoReconnectionFailed g msg) c6
                   in c7\<lparr>rustplusReconnecting := (rustplusReconnecting c7)(g \<mapsto> False)\<rparr>)
              | (Inr newRustplus, c6) \<Rightarrow>
                  log infoCap (AutoReconnectionInitiated g)
                    (c6\<lparr>rustplusObjects := (rustplusObjects c6)(newRustplus :=
                           (rustplusObjects c6 newRustplus)\<lparr>isNewConnection := True\<rparr>)\<rparr>)))"

text \<open>\<open>checkGuildConnection\<close>, the body of one reconciliation sweep for one guild.
  \<open>hour\<close> and \<open>minute\<close> are read from the clock.\<close>

definition checkGuildConnection ::
  "guildId \<Rightarrow> nat \<Rightarrow> nat \<Rightarrow> createOutcome \<Rightarrow> (guildId \<Rightarrow> bot \<Rightarrow> bot) \<Rightarrow> bot \<Rightarrow> bot" where
  "checkGuildConnection g hour minute outcome rv c =
     (if truthy (rustplusReconnecting c g) then c
      else case instances c g of
        None \<Rightarrow> c
      | Some inst \<Rightarrow>
          (case activeServer inst of
             None \<Rightarrow> c
           | Some s \<Rightarrow>
               if s = [] \<or> serverList inst s = None then c
               else (let shouldBeConnected = (activeServer inst \<noteq> None) in
                     if shouldBeConnected \<and> \<not> isCurrentlyConnected g c
                     then (let c1 = (if isLikelyServerRestartTime hour minute
                                     then log infoCap (LikelyRestartTime g) c else c);
                               c2 = log infoCap (AutoReconnecting g s) c1
                           in reconnectGuild g inst outcome rv c2)
                     else c)))"

definition forceReconnectGuild ::
  "guildId \<Rightarrow> createOutcome \<Rightarrow> (guildId \<Rightarrow> bot \<Rightarrow> bot) \<Rightarrow> bot \<Rightarrow> bot" where
  "forceReconnectGuild g outcome rv c =
     (case instances c g of
        None \<Rightarrow> c
      | Some inst \<Rightarrow>
          (case activeServer inst of
             None \<Rightarrow> c
           | Some s \<Rightarrow>
               if s = [] then c
               else reconnectGuild g inst outcome rv (log infoCap (ForceReconnecting g) c)))"

subsection \<open>Command handlers\<close>

text \<open>The state changes of \<open>handleAutoReconnectCommand\<close> and \<open>handleRetryCommand\<close> in
  \<open>commands/connection.js\<close>; the text they assemble for the reply is left out. Reading
  a property of a missing instance or server entry throws; the handler then stops
  with the state it has reached.\<close>

definition handleAutoReconnectCommand ::
  "guildId \<Rightarrow> createOutcome \<Rightarrow> (guildId \<Rightarrow> bot \<Rightarrow> bot) \<Rightarrow> bot \<Rightarrow> bot" where
  "handleAutoReconnectCommand g outcome rv c =
     (case instances c g of
        None \<Rightarrow> c
      | Some inst \<Rightarrow>
          (case activeServer inst of
             None \<Rightarrow> c
           | Some s \<Rightarrow>
               if s = [] then c
               else if \<not> isCurrentlyConnected g c then forceReconnectGuild g outcome rv c
               else c))"

definition handleRetryCommand :: "guildId \<Rightarrow> draw \<Rightarrow> nat \<Rightarrow> bot \<Rightarrow> bot" where
  "handleRetryCommand g rnd now c =
     (case instances c g of
        None \<Rightarrow> c
      | Some inst \<Rightarrow>
          (case activeServer inst of
             None \<Rightarrow> c
           | Some s \<Rightarrow>
               if s = [] then c
               else (let c1 = resetState g c;
                         c2 = c1\<lparr>rustplusReconnecting := (rustplusReconnecting c1)(g \<mapsto> False)\<rparr>
                     in case serverList inst s of
                          None \<Rightarrow> c2
                        | Some serverInfo \<Rightarrow>
                            attemptReconnection g ''manual_retry''
                              \<lparr>server = serverIp serverInfo, port = appPort serverInfo,
                               playerId = steamId serverInfo,
                               playerToken = se_playerToken serverInfo\<rparr> rnd now c2)))"

subsection \<open>Driving the timers\<close>

text \<open>\<open>fireLatest\<close> lets the timer that was scheduled last fire. After an accepted
  request this is the reconnection timer; after a failed attempt below the retry
  ceiling it is the one-second timer that asks for the next attempt. \<open>failingRun\<close>
  lets the latest timer fire once for every element of its list, with the connection
  factory throwing each time; an element gives the message of the exception and the
  random number and clock value in effect at that firing.\<close>

definition fireLatest :: "createOutcome \<Rightarrow> draw \<Rightarrow> nat \<Rightarrow> bot \<Rightarrow> bot" where
  "fireLatest outcome rnd now c = fireTimer (nextTimer c - 1) outcome rnd now c"

fun failingRun :: "(string \<times> draw \<times> nat) list \<Rightarrow> bot \<Rightarrow> bot" where
  "failingRun [] c = c"
| "failingRun ((msg, rnd, now) # xs) c = failingRun xs (fireLatest (CreateThrows msg) rnd now c)"


text \<open>The parameters and the state used where a property is shown on a concrete run:
  a client right after start-up whose retry ceiling is \<open>m\<close>, all else default.\<close>

definition someParams :: connectionParams where
  "someParams = \<lparr>server = ''203.0.113.7'', port = 28082, playerId = ''76561198000000000'',
                  playerToken = ''1234567''\<rparr>"

definition botWithCeiling :: "nat \<Rightarrow> bot" where
  "botWithCeiling m = newBot (defaultConfig\<lparr>maxRetries := m\<rparr>) 3"

text \<open>A client with one connection for the tenant \<open>''guild''\<close>, made by the connection
  factory and since reported operational.\<close>

definition connectedBot :: bot where
  "connectedBot =
     (let c = snd (createRustplusInstance ''guild'' (server someParams) (port someParams)
                     (playerId someParams) (playerToken someParams) CreateReturns
                     (botWithCeiling 10))
      in c\<lparr>rustplusObjects := (rustplusObjects c)(0 :=
              (rustplusObjects c 0)\<lparr>isOperational := True\<rparr>),
           activeRustplusInstances := [''guild'' \<mapsto> True]\<rparr>)"

text \<open>The same client under the enhanced monitor (threshold 2, timeout 8000) after a
  first successful check has recorded the identity \<open>storedInfo\<close> of the server, and the
  identity the server reports after a wipe.\<close>

definition storedInfo :: serverInfo where
  "storedInfo = \<lparr>name = ''Rusty Moose'', seed = 1337, mapSize = 4250, wipeTime = 1700000000\<rparr>"

definition wipedInfo :: serverInfo where
  "wipedInfo = \<lparr>name = ''Rusty Moose'', seed = 1337, mapSize = 4250, wipeTime = 1700600000\<rparr>"

definition fingerprintedBot :: bot where
  "fingerprintedBot =
     checkConnectionHealth_enhanced ''guild'' 0 (Settled (Responded True (Some storedInfo)))
       100 zeroDraw 110 (connectedBot\<lparr>maxConsecutiveFailures := 2, healthCheckTimeout := 8000\<rparr>)"

text \<open>A client with retry ceiling 1 whose single reconnection attempt has failed, and
  which then came by a connection all the same (the reconciliation loop creates
  connections without touching the retry state); the connection was reported
  operational and a first check recorded the identity of the server.\<close>

definition exhaustedBot :: bot where
  "exhaustedBot =
     (let c = failingRun [(''ECONNREFUSED'', zeroDraw, 0)]
                (attemptReconnection ''guild'' ''connection_lost'' someParams zeroDraw 0
                   (botWithCeiling 1));
          c1 = snd (createRustplusInstance ''guild'' (server someParams) (port someParams)
                      (playerId someParams) (playerToken someParams) CreateReturns c);
          c2 = c1\<lparr>rustplusObjects := (rustplusObjects c1)(0 :=
                     (rustplusObjects c1 0)\<lparr>isOperational := True\<rparr>),
                  activeRustplusInstances := [''guild'' \<mapsto> True],
                  maxConsecutiveFailures := 2, healthCheckTimeout := 8000\<rparr>
      in checkConnectionHealth_enhanced ''guild'' 0 (Settled (Responded True (Some storedInfo)))
           100 zeroDraw 110 c2)"

text \<open>A stability window with failures in it. Attempt 1 of a tenant creates a
  connection (timer 0, at 15000); its success is marked at 20000, which schedules the
  reset of the retry counter (timer 1, due 60000 later). At 30000 the connection is lost
  and attempt 2 is accepted (timer 2, raw delay 30000); at 60000 that attempt fails
  (timer 3, one second); at 61000 attempt 3 is accepted (timer 4). The state is the one
  just before the reset timer fires.\<close>

definition windowWithFailures :: bot where
  "windowWithFailures =
     (let c0 = attemptReconnection ''guild'' ''connection_lost'' someParams zeroDraw 0
                 (botWithCeiling 10);
          c1 = fireLatest CreateReturns zeroDraw 15000 c0;
          c2 = handleSuccessfulReconnection ''guild'' 20000 c1;
          c3 = attemptReconnection ''guild'' ''connection_lost'' someParams zeroDraw 30000 c2;
          c4 = fireLatest (CreateThrows ''ECONNREFUSED'') zeroDraw 60000 c3
      in fireLatest (CreateThrows ''ECONNREFUSED'') zeroDraw 61000 c4)"

text \<open>A tenant whose instance configuration names an active server, first without any
  connection, then with the operational connection of \<open>connectedBot\<close>. \<open>noReset\<close>
  stands for a \<open>resetRustplusVariables\<close> that changes nothing.\<close>

definition someEntry :: serverEntry where
  "someEntry = \<lparr>serverIp = ''203.0.113.7'', appPort = 28082, steamId = ''76561198000000000'',
                 se_playerToken = ''1234567''\<rparr>"

definition someInstance :: guildInstance where
  "someInstance = \<lparr>activeServer = Some ''srv1'', serverList = [''srv1'' \<mapsto> someEntry]\<rparr>"

definition configuredBot :: bot where
  "configuredBot = (botWithCeiling 10)\<lparr>instances := [''guild'' \<mapsto> someInstance]\<rparr>"

definition operationalBot :: bot where
  "operationalBot = connectedBot\<lparr>instances := [''guild'' \<mapsto> someInstance]\<rparr>"

definition noReset :: "guildId \<Rightarrow> bot \<Rightarrow> bot" where
  "noReset g c = c"

text \<open>The configured tenant after one reconciliation sweep at 12:30 in which the
  connection factory returned.\<close>

definition sweptBot :: bot where
  "sweptBot = checkGuildConnection ''guild'' 12 30 CreateReturns noReset configuredBot"

text \<open>A client right after start-up whose first reconnection request for the tenant
  has been accepted.\<close>

definition requestedBot :: bot where
  "requestedBot =
     attemptReconnection ''guild'' ''connection_lost'' someParams zeroDraw 0 (botWithCeiling 10)"

text \<open>The connected client after one, two and three probes in a row that ran into the
  timeout (monitor of \<open>connectionHealthMonitor.js\<close>, threshold 3).\<close>

definition afterOneTimeout :: bot where
  "afterOneTimeout = checkConnectionHealth ''guild'' 0 TimedOut 100 zeroDraw 10100 connectedBot"

definition afterTwoTimeouts :: bot where
  "afterTwoTimeouts = checkConnectionHealth ''guild'' 0 TimedOut 60100 zeroDraw 70100 afterOneTimeout"

definition afterThreeTimeouts :: bot where
  "afterThreeTimeouts =
     checkConnectionHealth ''guild'' 0 TimedOut 120100 zeroDraw 130100 afterTwoTimeouts"

text \<open>The calls of the connection factory recorded so far.\<close>

fun isCreate :: "extcall \<Rightarrow> bool" where
  "isCreate (CreateRustplusInstance g ip prt pid tok) = True"
| "isCreate (Disconnect r) = False"
| "isCreate (ResetRustplusVariables g) = False"

definition creations :: "bot \<Rightarrow> extcall list" where
  "creations c = filter isCreate (calls c)"


text \<open>Timer handles are handed out in increasing order, so every pending handle is
  below the next one.\<close>

definition timersBelow :: "bot \<Rightarrow> bool" where
  "timersBelow c = list_all (\<lambda>e. fst e < nextTimer c) (timers c)"



subsection \<open>Histories of the ReconnectionManager\<close>

text \<open>What can happen to the \<open>ReconnectionManager\<close> between two observations, apart from
  \<open>resetState\<close>: a request (from any trigger, for any tenant), a pending timer firing,
  and the two notifications \<open>handleSuccessfulReconnection\<close> and
  \<open>handleFailedReconnection\<close>. A history is a list of such events, applied in order.\<close>

datatype event =
    Request guildId string connectionParams draw nat
  | Fire timerId createOutcome draw nat
  | Succeeded guildId nat
  | Failed guildId string

fun step :: "event \<Rightarrow> bot \<Rightarrow> bot" where
  "step (Request g reason params rnd now) c = attemptReconnection g reason params rnd now c"
| "step (Fire t outcome rnd now) c = fireTimer t outcome rnd now c"
| "step (Succeeded g now) c = handleSuccessfulReconnection g now c"
| "step (Failed g reason) c = handleFailedReconnection g reason c"

fun run :: "event list \<Rightarrow> bot \<Rightarrow> bot" where
  "run [] c = c"
| "run (e # es) c = run es (step e c)"

text \<open>The events by which \<open>failingRun\<close> proceeds: each lets the latest timer of the state
  reached so far fire.\<close>

fun latestFires :: "(string \<times> draw \<times> nat) list \<Rightarrow> bot \<Rightarrow> event list" where
  "latestFires [] c = []"
| "latestFires ((msg, rnd, now) # xs) c =
     Fire (nextTimer c - 1) (CreateThrows msg) rnd now
       # latestFires xs (fireLatest (CreateThrows msg) rnd now c)"

text \<open>The pending reconnection timers of a tenant and the attempts of the tenant that
  have failed so far, the latter read off the log: the \<open>catch\<close> branch of the
  reconnection timer logs every failed attempt.\<close>

fun attemptOf :: "guildId \<Rightarrow> callback \<Rightarrow> bool" where
  "attemptOf g (ReconnectionTimer a g' reason params) = (g' = g)"
| "attemptOf g (NextAttemptTimer g' reason params) = False"
| "attemptOf g (RetryCounterReset g') = False"

fun resetOf :: "guildId \<Rightarrow> callback \<Rightarrow> bool" where
  "resetOf g (ReconnectionTimer a g' reason params) = False"
| "resetOf g (NextAttemptTimer g' reason params) = False"
| "resetOf g (RetryCounterReset g') = (g' = g)"

definition pendingAttempts :: "guildId \<Rightarrow> bot \<Rightarrow> nat" where
  "pendingAttempts g c = length (filter (\<lambda>e. attemptOf g (snd (snd e))) (timers c))"

definition failureOf :: "guildId \<Rightarrow> logLevel \<times> logMessage \<Rightarrow> bool" where
  "failureOf g e = (case snd e of AttemptFailed g' msg \<Rightarrow> g' = g | _ \<Rightarrow> False)"

definition failedAttempts :: "guildId \<Rightarrow> bot \<Rightarrow> nat" where
  "failedAttempts g c = length (filter (failureOf g) (logs c))"

text \<open>A history is quiet for a tenant when none of its events is the firing of a
  retry-counter reset timer of that tenant (the timer of \<open>markSuccessfulConnection\<close>).\<close>

definition firesReset :: "guildId \<Rightarrow> event \<Rightarrow> bot \<Rightarrow> bool" where
  "firesReset g e c =
     (case e of
        Fire t outcome rnd now \<Rightarrow>
          (case find (\<lambda>x. fst x = t) (timers c) of
             None \<Rightarrow> False
           | Some x \<Rightarrow> resetOf g (snd (snd x)))
      | _ \<Rightarrow> False)"

fun quiet :: "guildId \<Rightarrow> event list \<Rightarrow> bot \<Rightarrow> bool" where
  "quiet g [] c = True"
| "quiet g (e # es) c = (\<not> firesReset g e c \<and> quiet g es (step e c))"

text \<open>Retry state objects are allocated in increasing order, so every registered
  object lies below the next address.\<close>

definition statesBelow :: "bot \<Rightarrow> bool" where
  "statesBelow c = (\<forall>g a. reconnectionStates c g = Some a \<longrightarrow> a < nextState c)"

text \<open>The invariant of a quiet history for tenant \<open>g\<close>, where \<open>f0\<close> is the number of failed
  attempts logged before the history began: the state object of the tenant is its
  own, and every attempt that has failed since or is still pending was counted by
  \<open>retryCount\<close>.\<close>

definition counted :: "guildId \<Rightarrow> nat \<Rightarrow> bot \<Rightarrow> bool" where
  "counted g f0 c =
     (statesBelow c
      \<and> (\<forall>g'. reconnectionStates c g' = reconnectionStates c g
               \<longrightarrow> reconnectionStates c g = None \<or> g' = g)
      \<and> (case reconnectionStates c g of
            None \<Rightarrow> pendingAttempts g c = 0 \<and> failedAttempts g c = f0
          | Some a \<Rightarrow> failedAttempts g c + pendingAttempts g c
                        \<le> f0 + retryCount (stateObjects c a)))"

text \<open>The line a rejected request for tenant \<open>g\<close> adds to the log in state \<open>c\<close>.\<close>

definition rejection :: "guildId \<Rightarrow> bot \<Rightarrow> logLevel \<times> logMessage" where
  "rejection g c =
     (case reconnectionStates c g of
        None \<Rightarrow> (errorCap, MaximumAttemptsReached (maxRetries (config c)) g)
      | Some a \<Rightarrow>
          if isReconnecting (stateObjects c a) then (warningCap, AlreadyInProgress g)
          else (errorCap, MaximumAttemptsReached (maxRetries (config c)) g))"

text \<open>The timers an accepted request for tenant \<open>g\<close> leaves pending of those pending in
  \<open>c\<close>: all but the timer recorded in the retry state of the tenant.\<close>

definition keptTimers :: "guildId \<Rightarrow> bot \<Rightarrow> (timerId \<times> nat \<times> callback) list" where
  "keptTimers g c =
     (case reconnectionStates c g of
        None \<Rightarrow> timers c
      | Some a \<Rightarrow>
          (case timer (stateObjects c a) of
             None \<Rightarrow> timers c
           | Some t \<Rightarrow> filter (\<lambda>e. fst e \<noteq> t) (timers c)))"

text \<open>The retry count a tenant stands at; a tenant without retry state stands at 0.\<close>

definition retriesOf :: "guildId \<Rightarrow> bot \<Rightarrow> nat" where
  "retriesOf g c =
     (case reconnectionStates c g of None \<Rightarrow> 0 | Some a \<Rightarrow> retryCount (stateObjects c a))"

text \<open>The comparison of \<open>performHealthCheckRequest\<close> in the enhanced monitor:
  \<open>lastInfo.seed !== currentServerInfo.seed || lastInfo.mapSize !== currentServerInfo.mapSize
  || lastInfo.wipeTime !== currentServerInfo.wipeTime\<close>.\<close>

definition fingerprintChanged :: "serverInfo \<Rightarrow> serverInfo \<Rightarrow> bool" where
  "fingerprintChanged stored i =
     (seed i \<noteq> seed stored \<or> mapSize i \<noteq> mapSize stored \<or> wipeTime i \<noteq> wipeTime stored)"

subsection \<open>Further concrete states\<close>

text \<open>A tenant with retry ceiling 1 whose budget is spent while a reset of the retry
  counter is still pending. Attempt 1 creates a connection (timer 0, at 15000) and its
  success is marked at 20000 (timer 1, the reset, due at 80000). At 25000 the retry
  state is reset by hand and a new request is accepted (timer 2); at 40000 that
  attempt fails, which exhausts the ceiling. \<open>lapsedBot\<close> is the state after the reset
  timer has fired at 80000.\<close>

definition retriedBot :: bot where
  "retriedBot =
     (let c0 = attemptReconnection ''guild'' ''connection_lost'' someParams zeroDraw 0
                 (botWithCeiling 1);
          c1 = fireLatest CreateReturns zeroDraw 15000 c0;
          c2 = handleSuccessfulReconnection ''guild'' 20000 c1;
          c3 = resetState ''guild'' c2;
          c4 = attemptReconnection ''guild'' ''manual_retry'' someParams zeroDraw 25000 c3
      in fireLatest (CreateThrows ''ECONNREFUSED'') zeroDraw 40000 c4)"

definition lapsedBot :: bot where
  "lapsedBot = fireTimer 1 CreateReturns zeroDraw 80000 retriedBot"

text \<open>A connected tenant under the monitor of \<open>connectionHealthMonitor.js\<close> (threshold
  3) whose retry budget is spent: retry ceiling 1, the single attempt has failed, and
  the tenant came by an operational connection all the same. Then three probes in a
  row run into the timeout.\<close>

definition spentBot :: bot where
  "spentBot =
     (let c = failingRun [(''ECONNREFUSED'', zeroDraw, 0)]
                (attemptReconnection ''guild'' ''connection_lost'' someParams zeroDraw 0
                   (botWithCeiling 1));
          c1 = snd (createRustplusInstance ''guild'' (server someParams) (port someParams)
                      (playerId someParams) (playerToken someParams) CreateReturns c)
      in c1\<lparr>rustplusObjects := (rustplusObjects c1)(0 :=
                 (rustplusObjects c1 0)\<lparr>isOperational := True\<rparr>),
              activeRustplusInstances := [''guild'' \<mapsto> True]\<rparr>)"

definition spentAfterThreeTimeouts :: bot where
  "spentAfterThreeTimeouts =
     checkConnectionHealth ''guild'' 0 TimedOut 120100 zeroDraw 130100
       (checkConnectionHealth ''guild'' 0 TimedOut 60100 zeroDraw 70100
          (checkConnectionHealth ''guild'' 0 TimedOut 100 zeroDraw 10100 spentBot))"

text \<open>The client of \<open>fingerprintedBot\<close> after one probe of the enhanced monitor has run
  into the timeout of 8000: the failure count of the tenant stands at 1, one below
  the threshold.\<close>

definition fingerprintedAfterTimeout :: bot where
  "fingerprintedAfterTimeout =
     checkConnectionHealth_enhanced ''guild'' 0 TimedOut 60100 zeroDraw 68100 fingerprintedBot"

section \<open>Properties\<close>

subsection \<open>The concrete states\<close>

text \<open>The states defined above by running the code, in evaluated form.\<close>

lemmas run_defs = checkConnectionHealth_enhanced_def performHealthCheckRequest_enhanced_def
  checkConnectionHealth_def performHealthCheckRequest_def handleHealthCheckFailure_def
  triggerHealthCheckReconnection_def triggerServerRestartReconnection_def
  attemptReconnection_def shouldAttemptReconnection_def initializeState_def
  fireLatest_def fireTimer_def performReconnection_def createRustplusInstance_def
  handleSuccessfulReconnection_def markSuccessfulConnection_def resetState_def
  reconnectGuild_def checkGuildConnection_def forceReconnectGuild_def
  handleAutoReconnectCommand_def isCurrentlyConnected_def truthy_def
  isLikelyServerRestartTime_def noReset_def
  setTimeout_def clearTimeout_def log_def Let_def calculateDelay_def addJitter_def zeroDraw_def paramsOf_def
  botWithCeiling_def newBot_def defaultConfig_def someParams_def storedInfo_def wipedInfo_def
  someEntry_def someInstance_def




lemma windowWithFailures_eq:
  "windowWithFailures =
     \<lparr>rustplusObjects =
      (\<lambda>a. \<lparr>rp_guildId = [], rp_server = [], rp_port = 0,
              rp_playerId = [], rp_playerToken = [],
              isOperational = False, isDeleted = False,
              isNewConnection = False, lastServerInfo = None\<rparr>)
      (0 := \<lparr>rp_guildId = ''guild'', rp_server = ''203.0.113.7'',
               rp_port = 28082, rp_playerId = ''76561198000000000'',
               rp_playerToken = ''1234567'', isOperational = False,
               isDeleted = False, isNewConnection = False,
               lastServerInfo = None\<rparr>),
      nextRustplus = Suc 0, rustplusInstances = \<lambda>x. None,
      activeRustplusInstances = \<lambda>x. None, rustplusReconnecting = \<lambda>x. None,
      instances = \<lambda>x. None,
      config =
        \<lparr>baseDelay = 15000, maxDelay = 300000, maxRetries = 10,
           backoffMultiplier = 2, resetAfterSuccess = 60000\<rparr>,
      stateObjects =
        (\<lambda>a. \<lparr>isReconnecting = False, retryCount = 0, currentDelay = 0,
                timer = None, lastAttempt = None,
                reconnectionReason = None\<rparr>)
        (0 := \<lparr>isReconnecting = True, retryCount = Suc (Suc (Suc 0)),
                 currentDelay = 60000,
                 timer = Some (Suc (Suc (Suc (Suc 0)))),
                 lastAttempt = Some 61000,
                 reconnectionReason = Some ''connection_lost''\<rparr>),
      nextState = Suc 0, reconnectionStates = [''guild'' \<mapsto> 0],
      successfulConnections = [''guild'' \<mapsto> 20000],
      lastHealthCheck = \<lambda>x. None, consecutiveFailures = \<lambda>x. None,
      maxConsecutiveFailures = 3, healthCheckTimeout = 10000,
      lastSuccessfulCheck = \<lambda>x. None,
      timers =
        [(Suc 0, 60000, RetryCounterReset ''guild''),
         (Suc (Suc (Suc (Suc 0))), 60000,
          ReconnectionTimer 0 ''guild'' ''connection_lost''
           \<lparr>server = ''203.0.113.7'', port = 28082,
              playerId = ''76561198000000000'',
              playerToken = ''1234567''\<rparr>)],
      nextTimer = Suc (Suc (Suc (Suc (Suc 0)))),
      calls =
        [CreateRustplusInstance ''guild'' ''203.0.113.7'' 28082
          ''76561198000000000'' ''1234567'',
         CreateRustplusInstance ''guild'' ''203.0.113.7'' 28082
          ''76561198000000000'' ''1234567''],
      logs =
        [(infoCap,
          AttemptingReconnection (Suc 0) 10 ''guild'' ''connection_lost''
           15),
         (infoCap, ExecutingAttempt (Suc 0) ''guild''),
         (infoCap, ReconnectionSuccessful ''guild'' (Suc 0)),
         (infoCap,
          AttemptingReconnection (Suc (Suc 0)) 10 ''guild''
           ''connection_lost'' 30),
         (infoCap, ExecutingAttempt (Suc (Suc 0)) ''guild''),
         (errorCap, AttemptFailed ''guild'' ''ECONNREFUSED''),
         (infoCap,
          AttemptingReconnection (Suc (Suc (Suc 0))) 10 ''guild''
           ''connection_lost'' 60)]\<rparr>"
  unfolding connectedBot_def fingerprintedBot_def exhaustedBot_def windowWithFailures_def configuredBot_def operationalBot_def sweptBot_def requestedBot_def afterOneTimeout_def afterTwoTimeouts_def afterThreeTimeouts_def Let_def
  by (simp add: run_defs)

lemma configuredBot_eq:
  "configuredBot =
     \<lparr>rustplusObjects =
      \<lambda>a. \<lparr>rp_guildId = [], rp_server = [], rp_port = 0, rp_playerId = [],
             rp_playerToken = [], isOperational = False,
             isDeleted = False, isNewConnection = False,
             lastServerInfo = None\<rparr>,
      nextRustplus = 0, rustplusInstances = \<lambda>x. None,
      activeRustplusInstances = \<lambda>x. None, rustplusReconnecting = \<lambda>x. None,
      instances =
        [''guild'' \<mapsto>
         \<lparr>activeServer = Some ''srv1'',
            serverList =
              [''srv1'' \<mapsto>
               \<lparr>serverIp = ''203.0.113.7'', appPort = 28082,
                  steamId = ''76561198000000000'',
                  se_playerToken = ''1234567''\<rparr>]\<rparr>],
      config =
        \<lparr>baseDelay = 15000, maxDelay = 300000, maxRetries = 10,
           backoffMultiplier = 2, resetAfterSuccess = 60000\<rparr>,
      stateObjects =
        \<lambda>a. \<lparr>isReconnecting = False, retryCount = 0, currentDelay = 0,
               timer = None, lastAttempt = None,
               reconnectionReason = None\<rparr>,
      nextState = 0, reconnectionStates = \<lambda>x. None,
      successfulConnections = \<lambda>x. None, lastHealthCheck = \<lambda>x. None,
      consecutiveFailures = \<lambda>x. None, maxConsecutiveFailures = 3,
      healthCheckTimeout = 10000, lastSuccessfulCheck = \<lambda>x. None,
      timers = [], nextTimer = 0, calls = [], logs = []\<rparr>"
  unfolding connectedBot_def fingerprintedBot_def exhaustedBot_def windowWithFailures_def configuredBot_def operationalBot_def sweptBot_def requestedBot_def afterOneTimeout_def afterTwoTimeouts_def afterThreeTimeouts_def Let_def
  by (simp add: run_defs)

lemma operationalBot_eq:
  "operationalBot =
     \<lparr>rustplusObjects =
      (\<lambda>a. \<lparr>rp_guildId = [], rp_server = [], rp_port = 0,
              rp_playerId = [], rp_playerToken = [],
              isOperational = False, isDeleted = False,
              isNewConnection = False, lastServerInfo = None\<rparr>)
      (0 := \<lparr>rp_guildId = ''guild'', rp_server = ''203.0.113.7'',
               rp_port = 28082, rp_playerId = ''76561198000000000'',
               rp_playerToken = ''1234567'', isOperational = True,
               isDeleted = False, isNewConnection = False,
               lastServerInfo = None\<rparr>),
      nextRustplus = Suc 0, rustplusInstances = [''guild'' \<mapsto> 0],
      activeRustplusInstances = [''guild'' \<mapsto> True],
      rustplusReconnecting = \<lambda>x. None,
      instances =
        [''guild'' \<mapsto>
         \<lparr>activeServer = Some ''srv1'',
            serverList =
              [''srv1'' \<mapsto>
               \<lparr>serverIp = ''203.0.113.7'', appPort = 28082,
                  steamId = ''76561198000000000'',
                  se_playerToken = ''1234567''\<rparr>]\<rparr>],
      config =
        \<lparr>baseDelay = 15000, maxDelay = 300000, maxRetries = 10,
           backoffMultiplier = 2, resetAfterSuccess = 60000\<rparr>,
      stateObjects =
        \<lambda>a. \<lparr>isReconnecting = False, retryCount = 0, currentDelay = 0,
               timer = None, lastAttempt = None,
               reconnectionReason = None\<rparr>,
      nextState = 0, reconnectionStates = \<lambda>x. None,
      successfulConnections = \<lambda>x. None, lastHealthCheck = \<lambda>x. None,
      consecutiveFailures = \<lambda>x. None, maxConsecutiveFailures = 3,
      healthCheckTimeout = 10000, lastSuccessfulCheck = \<lambda>x. None,
      timers = [], nextTimer = 0,
      calls =
        [CreateRustplusInstance ''guild'' ''203.0.113.7'' 28082
          ''76561198000000000'' ''1234567''],
      logs = []\<rparr>"
  unfolding connectedBot_def fingerprintedBot_def exhaustedBot_def windowWithFailures_def configuredBot_def operationalBot_def sweptBot_def requestedBot_def afterOneTimeout_def afterTwoTimeouts_def afterThreeTimeouts_def Let_def
  by (simp add: run_defs)

lemma sweptBot_eq:
  "sweptBot =
     \<lparr>rustplusObjects =
      (\<lambda>a. \<lparr>rp_guildId = [], rp_server = [], rp_port = 0,
              rp_playerId = [], rp_playerToken = [],
              isOperational = False, isDeleted = False,
              isNewConnection = False, lastServerInfo = None\<rparr>)
      (0 := \<lparr>rp_guildId = ''guild'', rp_server = ''203.0.113.7'',
               rp_port = 28082, rp_playerId = ''76561198000000000'',
               rp_playerToken = ''1234567'', isOperational = False,
               isDeleted = False, isNewConnection = True,
               lastServerInfo = None\<rparr>),
      nextRustplus = Suc 0, rustplusInstances = [''guild'' \<mapsto> 0],
      activeRustplusInstances = \<lambda>x. None,
      rustplusReconnecting = [''guild'' \<mapsto> True],
      instances =
        [''guild'' \<mapsto>
         \<lparr>activeServer = Some ''srv1'',
            serverList =
              [''srv1'' \<mapsto>
               \<lparr>serverIp = ''203.0.113.7'', appPort = 28082,
                  steamId = ''76561198000000000'',
                  se_playerToken = ''1234567''\<rparr>]\<rparr>],
      config =
        \<lparr>baseDelay = 15000, maxDelay = 300000, maxRetries = 10,
           backoffMultiplier = 2, resetAfterSuccess = 60000\<rparr>,
      stateObjects =
        \<lambda>a. \<lparr>isReconnecting = False, retryCount = 0, currentDelay = 0,
               timer = None, lastAttempt = None,
               reconnectionReason = None\<rparr>,
      nextState = 0, reconnectionStates = \<lambda>x. None,
      successfulConnections = \<lambda>x. None, lastHealthCheck = \<lambda>x. None,
      consecutiveFailures = \<lambda>x. None, maxConsecutiveFailures = 3,
      healthCheckTimeout = 10000, lastSuccessfulCheck = \<lambda>x. None,
      timers = [], nextTimer = 0,
      calls =
        [ResetRustplusVariables ''guild'',
         CreateRustplusInstance ''guild'' ''203.0.113.7'' 28082
          ''76561198000000000'' ''1234567''],
      logs =
        [(infoCap, AutoReconnecting ''guild'' ''srv1''),
         (infoCap,
          StartingAutoReconnection ''guild'' ''srv1'' ''203.0.113.7''
           28082),
         (infoCap, AutoReconnectionInitiated ''guild'')]\<rparr>"
  unfolding connectedBot_def fingerprintedBot_def exhaustedBot_def windowWithFailures_def configuredBot_def operationalBot_def sweptBot_def requestedBot_def afterOneTimeout_def afterTwoTimeouts_def afterThreeTimeouts_def Let_def
  by (simp add: run_defs)

lemma requestedBot_eq:
  "requestedBot =
     \<lparr>rustplusObjects =
      \<lambda>a. \<lparr>rp_guildId = [], rp_server = [], rp_port = 0, rp_playerId = [],
             rp_playerToken = [], isOperational = False,
             isDeleted = False, isNewConnection = False,
             lastServerInfo = None\<rparr>,
      nextRustplus = 0, rustplusInstances = \<lambda>x. None,
      activeRustplusInstances = \<lambda>x. None, rustplusReconnecting = \<lambda>x. None,
      instances = \<lambda>x. None,
      config =
        \<lparr>baseDelay = 15000, maxDelay = 300000, maxRetries = 10,
           backoffMultiplier = 2, resetAfterSuccess = 60000\<rparr>,
      stateObjects =
        (\<lambda>a. \<lparr>isReconnecting = False, retryCount = 0, currentDelay = 0,
                timer = None, lastAttempt = None,
                reconnectionReason = None\<rparr>)
        (0 := \<lparr>isReconnecting = True, retryCount = Suc 0,
                 currentDelay = 15000, timer = Some 0,
                 lastAttempt = Some 0,
                 reconnectionReason = Some ''connection_lost''\<rparr>),
      nextState = Suc 0, reconnectionStates = [''guild'' \<mapsto> 0],
      successfulConnections = \<lambda>x. None, lastHealthCheck = \<lambda>x. None,
      consecutiveFailures = \<lambda>x. None, maxConsecutiveFailures = 3,
      healthCheckTimeout = 10000, lastSuccessfulCheck = \<lambda>x. None,
      timers =
        [(0, 15000,
          ReconnectionTimer 0 ''guild'' ''connection_lost''
           \<lparr>server = ''203.0.113.7'', port = 28082,
              playerId = ''76561198000000000'',
              playerToken = ''1234567''\<rparr>)],
      nextTimer = Suc 0, calls = [],
      logs =
        [(infoCap,
          AttemptingReconnection (Suc 0) 10 ''guild'' ''connection_lost''
           15)]\<rparr>"
  unfolding connectedBot_def fingerprintedBot_def exhaustedBot_def windowWithFailures_def configuredBot_def operationalBot_def sweptBot_def requestedBot_def afterOneTimeout_def afterTwoTimeouts_def afterThreeTimeouts_def Let_def
  by (simp add: run_defs)





subsection \<open>The backoff state machine\<close>

lemma initializeState_existing:
  "reconnectionStates c g = Some a \<Longrightarrow> initializeState g c = c"
  by (simp add: initializeState_def)

lemma initializeState_idem:
  "initializeState g (initializeState g c) = initializeState g c"
  by (simp add: initializeState_def split: option.splits)

lemma attemptReconnection_initialized:
  "attemptReconnection g reason params rnd now (initializeState g c)
     = attemptReconnection g reason params rnd now c"
  by (simp add: attemptReconnection_def shouldAttemptReconnection_def initializeState_idem)


lemma attemptReconnection_accepted:
  assumes "reconnectionStates c g = Some a"
      and "\<not> isReconnecting (stateObjects c a)"
      and "retryCount (stateObjects c a) < maxRetries (config c)"
  shows "attemptReconnection g reason params rnd now c =
     (let s = stateObjects c a;
          d = (if reason = ''server_restart_detected'' then 0
               else addJitter rnd (calculateDelay (config c) (retryCount s)))
      in c\<lparr>logs := logs c
               @ (if reason = ''server_restart_detected''
                  then [(infoCap, ImmediateReconnection g)] else [])
               @ [(infoCap, AttemptingReconnection (Suc (retryCount s)) (maxRetries (config c))
                     g reason (d div 1000))],
            timers := (case timer s of None \<Rightarrow> timers c
                       | Some t \<Rightarrow> filter (\<lambda>e. fst e \<noteq> t) (timers c))
               @ [(nextTimer c, d, ReconnectionTimer a g reason params)],
            nextTimer := Suc (nextTimer c),
            stateObjects := (stateObjects c)(a := s\<lparr>isReconnecting := True,
               retryCount := Suc (retryCount s), lastAttempt := Some now,
               reconnectionReason := Some reason, currentDelay := d,
               timer := Some (nextTimer c)\<rparr>)\<rparr>)"
  using assms
  by (simp add: attemptReconnection_def shouldAttemptReconnection_def initializeState_existing
      Let_def setTimeout_def clearTimeout_def log_def split: option.splits)

lemma shouldAttempt_True:
  assumes "fst (shouldAttemptReconnection g reason c)"
  shows "\<exists>a. reconnectionStates (initializeState g c) g = Some a
              \<and> \<not> isReconnecting (stateObjects (initializeState g c) a)
              \<and> retryCount (stateObjects (initializeState g c) a) < maxRetries (config c)
              \<and> retryCount (stateObjects (initializeState g c) a) = 
                  (case reconnectionStates c g of None \<Rightarrow> 0 | Some b \<Rightarrow> retryCount (stateObjects c b))"
  using assms
  by (auto simp: shouldAttemptReconnection_def Let_def initializeState_def split: option.splits if_splits)

lemma addJitter_zero: "addJitter zeroDraw d = d"
  by (simp add: addJitter_def zeroDraw_def)

lemma initializeState_fields:
  "config (initializeState g c) = config c" "nextTimer (initializeState g c) = nextTimer c"
  "timers (initializeState g c) = timers c"
  by (simp_all add: initializeState_def split: option.splits)



lemma timersBelow_filter_app:
  assumes "timersBelow c"
  shows "list_all (\<lambda>e. fst e < Suc (nextTimer c)) (filter P (timers c) @ [(nextTimer c, d, cb)])"
  using assms by (auto simp: timersBelow_def list_all_iff less_Suc_eq)







lemma calculateDelay_mono:
  "1 \<le> backoffMultiplier cfg \<Longrightarrow> n \<le> m \<Longrightarrow> calculateDelay cfg n \<le> calculateDelay cfg m"
  unfolding calculateDelay_def
  by (intro min.mono mult_le_mono2 power_increasing) simp_all

text \<open>
  C3. Under the default configuration (base delay 15000, multiplier 2, ceiling 300000)
  \<open>calculateDelay\<close> is non-decreasing in its argument and never exceeds \<open>maxDelay\<close>.
  The zero delay forced for \<open>server_restart_detected\<close> is set in
  \<open>attemptReconnection\<close>, not in \<open>calculateDelay\<close>, so it needs no exception here.
\<close>

theorem calculateDelay_nondecreasing_bounded:
  "(n \<le> m \<longrightarrow> calculateDelay defaultConfig n \<le> calculateDelay defaultConfig m)
   \<and> calculateDelay defaultConfig n \<le> maxDelay defaultConfig"
proof
  show "n \<le> m \<longrightarrow> calculateDelay defaultConfig n \<le> calculateDelay defaultConfig m"
    using calculateDelay_mono [of defaultConfig n m] by (simp add: defaultConfig_def)
  show "calculateDelay defaultConfig n \<le> maxDelay defaultConfig"
    by (simp add: calculateDelay_def)
qed

theorem calculateDelay_nondecreasing_bounded_witness:
  "(3::nat) \<le> 5 \<and> calculateDelay defaultConfig 3 = 120000
   \<and> calculateDelay defaultConfig 5 = 300000
   \<and> calculateDelay defaultConfig 3 \<le> calculateDelay defaultConfig 5
   \<and> calculateDelay defaultConfig 3 \<le> maxDelay defaultConfig"
  using calculateDelay_nondecreasing_bounded [of 3 5]
  by (simp add: calculateDelay_def defaultConfig_def)

text \<open>
  C2. An accepted request that brings the retry count to \<open>n\<close> computes the raw delay
  \<open>min (baseDelay * backoffMultiplier ^ (n - 1)) maxDelay\<close>; the delay it stores and
  schedules is the jitter applied to it (the raw delay itself when the random number
  is 0). With the default configuration the retry counts 1, 2, 3, 4 and 6 give 15000,
  30000, 60000, 120000 and the ceiling 300000.
\<close>

theorem attemptReconnection_raw_delay:
  "(fst (shouldAttemptReconnection g reason c) \<and> reason \<noteq> ''server_restart_detected'' \<longrightarrow>
      (\<exists>a. reconnectionStates (attemptReconnection g reason params rnd now c) g = Some a
        \<and> (let n = retryCount (stateObjects (attemptReconnection g reason params rnd now c) a);
                raw = min (baseDelay (config c) * backoffMultiplier (config c) ^ (n - 1))
                          (maxDelay (config c))
            in n = Suc (case reconnectionStates c g of None \<Rightarrow> 0
                        | Some b \<Rightarrow> retryCount (stateObjects c b))
             \<and> currentDelay (stateObjects (attemptReconnection g reason params rnd now c) a)
                 = addJitter rnd raw
             \<and> last (timers (attemptReconnection g reason params rnd now c))
                 = (nextTimer c, addJitter rnd raw, ReconnectionTimer a g reason params)
             \<and> addJitter zeroDraw raw = raw)))
   \<and> map (\<lambda>n. calculateDelay defaultConfig (n - 1)) [1, 2, 3, 4, 6]
       = [15000, 30000, 60000, 120000, 300000]"
proof (intro conjI impI)
  assume acc: "fst (shouldAttemptReconnection g reason c) \<and> reason \<noteq> ''server_restart_detected''"
  let ?c1 = "initializeState g c"
  from acc shouldAttempt_True [of g reason c] obtain a where
    a: "reconnectionStates ?c1 g = Some a" "\<not> isReconnecting (stateObjects ?c1 a)"
       "retryCount (stateObjects ?c1 a) < maxRetries (config c)"
       "retryCount (stateObjects ?c1 a) =
          (case reconnectionStates c g of None \<Rightarrow> 0 | Some b \<Rightarrow> retryCount (stateObjects c b))"
    by blast
  have "attemptReconnection g reason params rnd now c
          = attemptReconnection g reason params rnd now ?c1"
    by (simp add: attemptReconnection_initialized)
  also note attemptReconnection_accepted [of ?c1 g a reason params rnd now]
  finally show "\<exists>a. reconnectionStates (attemptReconnection g reason params rnd now c) g = Some a
        \<and> (let n = retryCount (stateObjects (attemptReconnection g reason params rnd now c) a);
                raw = min (baseDelay (config c) * backoffMultiplier (config c) ^ (n - 1))
                          (maxDelay (config c))
            in n = Suc (case reconnectionStates c g of None \<Rightarrow> 0
                        | Some b \<Rightarrow> retryCount (stateObjects c b))
             \<and> currentDelay (stateObjects (attemptReconnection g reason params rnd now c) a)
                 = addJitter rnd raw
             \<and> last (timers (attemptReconnection g reason params rnd now c))
                 = (nextTimer c, addJitter rnd raw, ReconnectionTimer a g reason params)
             \<and> addJitter zeroDraw raw = raw)"
    using a acc
    by (intro exI [of _ a]) (simp add: Let_def initializeState_fields calculateDelay_def addJitter_zero)
next
  show "map (\<lambda>n. calculateDelay defaultConfig (n - 1)) [1, 2, 3, 4, 6]
       = [15000, 30000, 60000, 120000, 300000]"
    by (simp add: calculateDelay_def defaultConfig_def)
qed

theorem attemptReconnection_raw_delay_witness:
  "(let c = botWithCeiling 10;
        c' = attemptReconnection ''guild'' ''connection_lost'' someParams zeroDraw 7 c
    in fst (shouldAttemptReconnection ''guild'' ''connection_lost'' c)
       \<and> (\<exists>a. reconnectionStates c' ''guild'' = Some a
              \<and> retryCount (stateObjects c' a) = 1
              \<and> currentDelay (stateObjects c' a) = 15000
              \<and> last (timers c')
                   = (0, 15000, ReconnectionTimer a ''guild'' ''connection_lost'' someParams)))
   \<and> (let c = (botWithCeiling 10)
                 \<lparr>reconnectionStates := [''guild'' \<mapsto> 0],
                  stateObjects := (\<lambda>a. \<lparr>isReconnecting = False, retryCount = 5,
                     currentDelay = 240000, timer = None, lastAttempt = None,
                     reconnectionReason = None\<rparr>)\<rparr>;
            c' = attemptReconnection ''guild'' ''connection_lost'' someParams zeroDraw 7 c
        in fst (shouldAttemptReconnection ''guild'' ''connection_lost'' c)
           \<and> (\<exists>a. reconnectionStates c' ''guild'' = Some a
              \<and> retryCount (stateObjects c' a) = 6
              \<and> currentDelay (stateObjects c' a) = 300000))"
proof -
  let ?c = "botWithCeiling 10"
  let ?d = "(botWithCeiling 10)
                 \<lparr>reconnectionStates := [''guild'' \<mapsto> 0],
                  stateObjects := (\<lambda>a. \<lparr>isReconnecting = False, retryCount = 5,
                     currentDelay = 240000, timer = None, lastAttempt = None,
                     reconnectionReason = None\<rparr>)\<rparr>"
  have hc: "fst (shouldAttemptReconnection ''guild'' ''connection_lost'' ?c)
            \<and> ''connection_lost'' \<noteq> ''server_restart_detected''"
    by (simp add: shouldAttemptReconnection_def initializeState_def botWithCeiling_def
        newBot_def defaultConfig_def)
  have hd: "fst (shouldAttemptReconnection ''guild'' ''connection_lost'' ?d)
            \<and> ''connection_lost'' \<noteq> ''server_restart_detected''"
    by (simp add: shouldAttemptReconnection_def initializeState_def botWithCeiling_def
        newBot_def defaultConfig_def)
  have cfg: "config ?c = defaultConfig\<lparr>maxRetries := 10\<rparr>" "config ?d = defaultConfig\<lparr>maxRetries := 10\<rparr>"
    "reconnectionStates ?c ''guild'' = None" "reconnectionStates ?d ''guild'' = Some 0"
    "retryCount (stateObjects ?d 0) = 5" "nextTimer ?c = 0"
    by (simp_all add: botWithCeiling_def newBot_def)
  show ?thesis
    using attemptReconnection_raw_delay [of "''guild''" "''connection_lost''" ?c someParams zeroDraw 7] hc
      attemptReconnection_raw_delay [of "''guild''" "''connection_lost''" ?d someParams zeroDraw 7] hd
    by (auto simp: Let_def cfg defaultConfig_def)
qed




lemma markSuccessfulConnection_timer:
  "timers (markSuccessfulConnection g now c)
     = timers c @ [(nextTimer c, resetAfterSuccess (config c), RetryCounterReset g)]"
  by (simp add: markSuccessfulConnection_def setTimeout_def)

lemma fire_reset_timer:
  assumes "find (\<lambda>e. fst e = t) (timers c) = Some (t, d, RetryCounterReset g)"
  shows "fireTimer t outcome rnd now c =
           (case reconnectionStates c g of
              None \<Rightarrow> clearTimeout t c
            | Some a \<Rightarrow>
                log infoCap (RetryCounterResetMsg g)
                  ((clearTimeout t c)\<lparr>stateObjects := (stateObjects c)(a :=
                      (stateObjects c a)\<lparr>retryCount := 0,
                         currentDelay := baseDelay (config c)\<rparr>)\<rparr>))"
  using assms
  by (simp add: fireTimer_def clearTimeout_def Let_def split: option.splits)

text \<open>
  C8 (amended). \<open>markSuccessfulConnection\<close> schedules one timer of \<open>resetAfterSuccess\<close>
  milliseconds. When that timer fires, the retry count of the tenant is set to 0 and
  its current delay to \<open>baseDelay\<close> whenever the tenant still has a retry state,
  whatever happened during the window; if the retry state has been removed in the
  meantime (\<open>resetState\<close>), the timer changes nothing.
\<close>

theorem retry_counter_reset_unconditional:
  "timers (markSuccessfulConnection g now c)
     = timers c @ [(nextTimer c, resetAfterSuccess (config c), RetryCounterReset g)]
   \<and> (find (\<lambda>e. fst e = t) (timers c') = Some (t, d, RetryCounterReset g) \<longrightarrow>
        (\<forall>a. reconnectionStates c' g = Some a \<longrightarrow>
            retryCount (stateObjects (fireTimer t outcome rnd now' c') a) = 0
          \<and> currentDelay (stateObjects (fireTimer t outcome rnd now' c') a)
              = baseDelay (config c'))
      \<and> (reconnectionStates c' g = None \<longrightarrow>
            fireTimer t outcome rnd now' c' = clearTimeout t c'))"
  by (auto simp: markSuccessfulConnection_timer fire_reset_timer log_def clearTimeout_def)


theorem retry_counter_reset_unconditional_witness:
  "find (\<lambda>e. fst e = 1) (timers windowWithFailures) = Some (1, 60000, RetryCounterReset ''guild'')
   \<and> reconnectionStates windowWithFailures ''guild'' = Some 0
   \<and> retryCount (stateObjects windowWithFailures 0) = 3
   \<and> retryCount (stateObjects (fireTimer 1 CreateReturns zeroDraw 80000 windowWithFailures) 0) = 0
   \<and> find (\<lambda>e. fst e = 1) (timers (resetState ''guild'' windowWithFailures))
       = Some (1, 60000, RetryCounterReset ''guild'')
   \<and> reconnectionStates (resetState ''guild'' windowWithFailures) ''guild'' = None
   \<and> fireTimer 1 CreateReturns zeroDraw 80000 (resetState ''guild'' windowWithFailures)
       = clearTimeout 1 (resetState ''guild'' windowWithFailures)"
proof -
  have f: "find (\<lambda>e. fst e = 1) (timers windowWithFailures)
             = Some (1, 60000, RetryCounterReset ''guild'')"
     "reconnectionStates windowWithFailures ''guild'' = Some 0"
     "retryCount (stateObjects windowWithFailures 0) = 3"
    by (simp_all add: windowWithFailures_eq)
  have g: "find (\<lambda>e. fst e = 1) (timers (resetState ''guild'' windowWithFailures))
             = Some (1, 60000, RetryCounterReset ''guild'')"
     "reconnectionStates (resetState ''guild'' windowWithFailures) ''guild'' = None"
    by (simp_all add: windowWithFailures_eq resetState_def clearTimeout_def)
  note T1 = retry_counter_reset_unconditional
        [of "''guild''" 0 windowWithFailures 1 windowWithFailures 60000 CreateReturns zeroDraw 80000,
         THEN conjunct2, THEN mp, OF f(1), THEN conjunct1, rule_format, OF f(2), THEN conjunct1]
  note T2 = retry_counter_reset_unconditional
        [of "''guild''" 0 windowWithFailures 1 "resetState ''guild'' windowWithFailures" 60000
            CreateReturns zeroDraw 80000,
         THEN conjunct2, THEN mp, OF g(1), THEN conjunct2, THEN mp, OF g(2)]
  show ?thesis
    using f g T1 T2 by simp
qed

text \<open>
  The claim C8 as first stated (a failure during the window prevents the reset) fails:
  in \<open>windowWithFailures\<close> the connection was lost and a reconnection attempt failed
  after the success was marked, the retry count stands at 3, and the timer of
  \<open>markSuccessfulConnection\<close> still sets it to 0.
\<close>

theorem retry_counter_reset_despite_failures:
  "(1, 60000, RetryCounterReset ''guild'') \<in> set (timers windowWithFailures)
   \<and> retryCount (stateObjects windowWithFailures 0) = 3
   \<and> (errorCap, AttemptFailed ''guild'' ''ECONNREFUSED'') \<in> set (logs windowWithFailures)
   \<and> retryCount (stateObjects (fireTimer 1 CreateReturns zeroDraw 80000 windowWithFailures) 0) = 0
   \<and> currentDelay (stateObjects (fireTimer 1 CreateReturns zeroDraw 80000 windowWithFailures) 0)
       = 15000"
  by (simp add: windowWithFailures_eq fireTimer_def clearTimeout_def log_def)


subsection \<open>The health monitors\<close>

















lemma paramsOf_updates [simp]:
  "paramsOf (r\<lparr>isOperational := b\<rparr>) = paramsOf r"
  "paramsOf (r\<lparr>lastServerInfo := i\<rparr>) = paramsOf r"
  by (simp_all add: paramsOf_def)





subsection \<open>The reconciliation loop and the forced reconnection\<close>

lemma attemptReconnection_calls:
  "calls (attemptReconnection g reason params rnd now c) = calls c"
  by (simp add: attemptReconnection_def shouldAttemptReconnection_def initializeState_def
      Let_def setTimeout_def clearTimeout_def log_def split: option.splits)

lemma handleHealthCheckFailure_calls:
  "calls (handleHealthCheckFailure g r msg rnd now c) = calls c"
  by (simp add: handleHealthCheckFailure_def triggerHealthCheckReconnection_def Let_def log_def
      attemptReconnection_calls)

lemma creations_triggerReconnection:
  "creations (triggerReconnection r reason rnd now c) = creations c"
  by (simp add: creations_def triggerReconnection_def attemptReconnection_calls)

lemma creations_checkConnectionHealth:
  "creations (checkConnectionHealth g r probe startTime rnd now c) = creations c"
  by (simp add: creations_def checkConnectionHealth_def Let_def log_def
      handleHealthCheckFailure_calls split: probeOutcome.splits sum.splits)

lemma performHealthCheckRequest_enhanced_creations:
  "creations (snd (performHealthCheckRequest_enhanced r ro rnd now c)) = creations c"
  by (simp add: creations_def performHealthCheckRequest_enhanced_def
      triggerServerRestartReconnection_def attemptReconnection_calls Let_def log_def
      split: requestOutcome.splits option.splits)

lemma creations_checkConnectionHealth_enhanced:
  "creations (checkConnectionHealth_enhanced g r probe startTime rnd now c) = creations c"
proof (cases probe)
  case TimedOut
  then show ?thesis
    by (simp add: creations_def checkConnectionHealth_enhanced_def handleHealthCheckFailure_calls)
next
  case (Settled ro)
  let ?c1 = "c\<lparr>lastHealthCheck := (lastHealthCheck c)(g \<mapsto> startTime)\<rparr>"
  obtain res c2 where p: "performHealthCheckRequest_enhanced r ro rnd now ?c1 = (res, c2)"
    by (cases "performHealthCheckRequest_enhanced r ro rnd now ?c1")
  have "creations c2 = creations ?c1"
    using performHealthCheckRequest_enhanced_creations [of r ro rnd now ?c1] p by simp
  then have c2: "filter isCreate (calls c2) = filter isCreate (calls c)"
    by (simp add: creations_def)
  show ?thesis
    using Settled p c2
    by (cases res)
       (simp_all add: creations_def checkConnectionHealth_enhanced_def log_def
          handleHealthCheckFailure_calls)
qed

lemma creations_fire_reconnection:
  assumes "find (\<lambda>e. fst e = t) (timers c) = Some (t, d, ReconnectionTimer a g reason params)"
      and "reconnectionStates c g \<noteq> None"
  shows "creations (fireTimer t outcome rnd now c)
           = creations c @ [CreateRustplusInstance g (server params) (port params)
                              (playerId params) (playerToken params)]"
  unfolding creations_def fireTimer_def performReconnection_def createRustplusInstance_def
    clearTimeout_def setTimeout_def log_def Let_def
  using assms by (cases outcome) (auto split: option.splits)

lemma creations_fire_other:
  assumes "find (\<lambda>e. fst e = t) (timers c) = None
           \<or> find (\<lambda>e. fst e = t) (timers c) = Some (t, d, NextAttemptTimer g reason params)
           \<or> find (\<lambda>e. fst e = t) (timers c) = Some (t, d, RetryCounterReset g)"
  shows "creations (fireTimer t outcome rnd now c) = creations c"
  using assms
  by (auto simp: creations_def fireTimer_def attemptReconnection_calls clearTimeout_def
      log_def Let_def split: option.splits)

lemma reconnectGuild_creations:
  assumes "serverList inst (case activeServer inst of None \<Rightarrow> ''null'' | Some s \<Rightarrow> s) = Some e"
  shows "creations (reconnectGuild g inst outcome rv c)
           = creations c @ [CreateRustplusInstance g (serverIp e) (appPort e) (steamId e)
                              (se_playerToken e)]"
  unfolding creations_def reconnectGuild_def createRustplusInstance_def log_def Let_def
  using assms by (cases outcome) (simp_all split: option.splits)

lemma reconnectGuild_flag:
  assumes "serverList inst (case activeServer inst of None \<Rightarrow> ''null'' | Some s \<Rightarrow> s) = Some e"
  shows "rustplusReconnecting (reconnectGuild g inst outcome rv c) g
           = Some (case outcome of CreateReturns \<Rightarrow> True | CreateThrows msg \<Rightarrow> False)"
  unfolding reconnectGuild_def createRustplusInstance_def log_def Let_def
  using assms by (cases outcome) (simp_all split: option.splits)

lemma reconnectGuild_manager_untouched:
  assumes "\<And>x. timers (rv g x) = timers x \<and> stateObjects (rv g x) = stateObjects x
              \<and> reconnectionStates (rv g x) = reconnectionStates x"
  shows "timers (reconnectGuild g inst outcome rv c) = timers c
       \<and> stateObjects (reconnectGuild g inst outcome rv c) = stateObjects c
       \<and> reconnectionStates (reconnectGuild g inst outcome rv c) = reconnectionStates c"
  unfolding reconnectGuild_def createRustplusInstance_def log_def Let_def
  using assms by (cases outcome) (simp_all split: option.splits)

lemma checkGuildConnection_qualifying:
  assumes "\<not> truthy (rustplusReconnecting c g)" and "instances c g = Some inst"
      and "activeServer inst = Some s" and "s \<noteq> []" and "serverList inst s = Some e"
      and "\<not> isCurrentlyConnected g c"
  shows "checkGuildConnection g hour minute outcome rv c =
           reconnectGuild g inst outcome rv
             (log infoCap (AutoReconnecting g s)
                (if isLikelyServerRestartTime hour minute
                 then log infoCap (LikelyRestartTime g) c else c))"
  using assms by (simp add: checkGuildConnection_def Let_def)

lemma checkGuildConnection_skips:
  assumes "truthy (rustplusReconnecting c g) \<or> isCurrentlyConnected g c
           \<or> (case instances c g of
                 None \<Rightarrow> True
               | Some inst \<Rightarrow>
                   (case activeServer inst of
                      None \<Rightarrow> True
                    | Some s \<Rightarrow> s = [] \<or> serverList inst s = None))"
  shows "checkGuildConnection g hour minute outcome rv c = c"
  using assms by (auto simp: checkGuildConnection_def Let_def split: option.splits)

lemma creations_log [simp]: "creations (log lvl msg c) = creations c"
  by (simp add: creations_def log_def)

lemma creations_if_log [simp]:
  "creations (if b then log lvl msg c else c) = creations c"
  by simp

text \<open>
  C6 (amended). The transport error callback and both health monitors never call the
  connection factory themselves: they go through \<open>attemptReconnection\<close>, and the
  \<open>ReconnectionManager\<close> calls the factory exactly when one of its reconnection timers
  fires for a tenant that has a retry state (its other timers call nothing). The
  reconciliation loop is different: \<open>reconnectGuild\<close> of \<open>AutoReconnectManager\<close>, which
  the sweep and \<open>forceReconnectGuild\<close> run, calls the factory directly for every
  tenant whose active server has an entry.
\<close>

theorem connection_factory_callers:
  "creations (triggerReconnection r reason rnd now c) = creations c
   \<and> creations (checkConnectionHealth g r probe startTime rnd now c) = creations c
   \<and> creations (checkConnectionHealth_enhanced g r probe startTime rnd now c) = creations c
   \<and> (find (\<lambda>e. fst e = t) (timers c) = Some (t, d, ReconnectionTimer a g reason params)
        \<and> reconnectionStates c g \<noteq> None \<longrightarrow>
        creations (fireTimer t outcome rnd now c)
          = creations c @ [CreateRustplusInstance g (server params) (port params)
                             (playerId params) (playerToken params)])
   \<and> (find (\<lambda>e. fst e = t) (timers c) = None
        \<or> find (\<lambda>e. fst e = t) (timers c) = Some (t, d, NextAttemptTimer g reason params)
        \<or> find (\<lambda>e. fst e = t) (timers c) = Some (t, d, RetryCounterReset g) \<longrightarrow>
        creations (fireTimer t outcome rnd now c) = creations c)
   \<and> (serverList inst (case activeServer inst of None \<Rightarrow> ''null'' | Some s \<Rightarrow> s) = Some e \<longrightarrow>
        creations (reconnectGuild g inst outcome rv c)
          = creations c @ [CreateRustplusInstance g (serverIp e) (appPort e) (steamId e)
                             (se_playerToken e)])"
  using creations_triggerReconnection [of r reason rnd now c]
    creations_checkConnectionHealth [of g r probe startTime rnd now c]
    creations_checkConnectionHealth_enhanced [of g r probe startTime rnd now c]
    creations_fire_reconnection [of t c d a g reason params outcome rnd now]
    creations_fire_other [of t c d g reason params outcome rnd now]
    reconnectGuild_creations [of inst e g outcome rv c]
  by blast


theorem connection_factory_callers_witness:
  "find (\<lambda>e. fst e = 0) (timers requestedBot)
     = Some (0, 15000, ReconnectionTimer 0 ''guild'' ''connection_lost'' someParams)
   \<and> reconnectionStates requestedBot ''guild'' \<noteq> None
   \<and> creations requestedBot = []
   \<and> creations (fireTimer 0 CreateReturns zeroDraw 15000 requestedBot)
       = [CreateRustplusInstance ''guild'' ''203.0.113.7'' 28082 ''76561198000000000'' ''1234567'']
   \<and> find (\<lambda>e. fst e = 5) (timers requestedBot) = None
   \<and> creations (fireTimer 5 CreateReturns zeroDraw 15000 requestedBot) = []
   \<and> serverList someInstance ''srv1'' = Some someEntry
   \<and> creations (reconnectGuild ''guild'' someInstance CreateReturns noReset configuredBot)
       = [CreateRustplusInstance ''guild'' ''203.0.113.7'' 28082 ''76561198000000000'' ''1234567'']"
proof -
  have f: "find (\<lambda>e. fst e = 0) (timers requestedBot)
              = Some (0, 15000, ReconnectionTimer 0 ''guild'' ''connection_lost'' someParams)
           \<and> reconnectionStates requestedBot ''guild'' \<noteq> None"
    "find (\<lambda>e. fst e = 5) (timers requestedBot) = None"
    "creations requestedBot = []"
    by (simp_all add: requestedBot_eq creations_def someParams_def)
  have s: "serverList someInstance
             (case activeServer someInstance of None \<Rightarrow> ''null'' | Some s \<Rightarrow> s) = Some someEntry"
    "serverList someInstance ''srv1'' = Some someEntry"
    "creations configuredBot = []"
    by (simp_all add: someInstance_def configuredBot_eq creations_def)
  note T1 = connection_factory_callers
      [where c = requestedBot and t = 0 and d = 15000 and a = 0 and g = "''guild''"
         and reason = "''connection_lost''" and params = someParams and outcome = CreateReturns
         and rnd = zeroDraw and now = 15000,
       THEN conjunct2, THEN conjunct2, THEN conjunct2, THEN conjunct1, THEN mp, OF f(1)]
  note T2 = connection_factory_callers
      [where c = requestedBot and t = 5 and outcome = CreateReturns and rnd = zeroDraw and now = 15000,
       THEN conjunct2, THEN conjunct2, THEN conjunct2, THEN conjunct2, THEN conjunct1,
       THEN mp, OF disjI1, OF f(2)]
  note T3 = connection_factory_callers
      [where c = configuredBot and g = "''guild''" and inst = someInstance and e = someEntry
         and outcome = CreateReturns and rv = noReset,
       THEN conjunct2, THEN conjunct2, THEN conjunct2, THEN conjunct2, THEN conjunct2,
       THEN mp, OF s(1)]
  show ?thesis
    using f s T1 T2 T3 by (simp add: someParams_def someEntry_def)
qed


text \<open>
  The claim C6 as first stated (no component but the \<open>ReconnectionManager\<close> calls the
  factory) fails on one sweep over a configured, unconnected tenant: the factory is
  called and the connection registered, while the \<open>ReconnectionManager\<close> has no retry
  state for the tenant and has never set a timer.
\<close>

theorem sweep_creates_connection_itself:
  "creations configuredBot = []
   \<and> reconnectionStates configuredBot ''guild'' = None
   \<and> timers configuredBot = []
   \<and> creations sweptBot
       = [CreateRustplusInstance ''guild'' ''203.0.113.7'' 28082 ''76561198000000000'' ''1234567'']
   \<and> rustplusInstances sweptBot ''guild'' = Some 0
   \<and> reconnectionStates sweptBot ''guild'' = None
   \<and> timers sweptBot = []
   \<and> nextTimer sweptBot = 0"
  by (simp add: creations_def configuredBot_eq sweptBot_eq)


text \<open>
  C7 (amended). A reconciliation sweep acts on a tenant exactly when the instance of the
  tenant names an active server that has an entry in its server list, the tenant is
  not marked reconnecting (\<open>rustplusReconnecting\<close>) and it is not observed operational.
  It then calls the connection factory itself, once, with no request to
  \<open>attemptReconnection\<close> and no reason (the retry states and timers stay as
  \<open>resetRustplusVariables\<close> leaves them). If the factory returns, the tenant is marked
  reconnecting and a further sweep does nothing; if it throws, the mark is cleared.
  In every other case the sweep changes nothing.
\<close>

theorem sweep_reconnects_directly:
  "(\<not> truthy (rustplusReconnecting c g) \<and> instances c g = Some inst
     \<and> activeServer inst = Some s \<and> s \<noteq> [] \<and> serverList inst s = Some e
     \<and> \<not> isCurrentlyConnected g c
    \<longrightarrow> (let c' = checkGuildConnection g hour minute outcome rv c in
           creations c' = creations c @ [CreateRustplusInstance g (serverIp e) (appPort e)
                                          (steamId e) (se_playerToken e)]
         \<and> (outcome = CreateReturns \<longrightarrow>
               rustplusReconnecting c' g = Some True
             \<and> checkGuildConnection g hour' minute' outcome' rv' c' = c')
         \<and> (\<forall>msg. outcome = CreateThrows msg \<longrightarrow> rustplusReconnecting c' g = Some False)
         \<and> ((\<forall>x. timers (rv g x) = timers x \<and> stateObjects (rv g x) = stateObjects x
                  \<and> reconnectionStates (rv g x) = reconnectionStates x)
             \<longrightarrow> timers c' = timers c \<and> stateObjects c' = stateObjects c
                \<and> reconnectionStates c' = reconnectionStates c)))
   \<and> (truthy (rustplusReconnecting c g) \<or> isCurrentlyConnected g c
       \<or> (case instances c g of
             None \<Rightarrow> True
           | Some inst \<Rightarrow>
               (case activeServer inst of
                  None \<Rightarrow> True
                | Some s \<Rightarrow> s = [] \<or> serverList inst s = None))
      \<longrightarrow> checkGuildConnection g hour minute outcome rv c = c)"
proof (intro conjI impI)
  assume q: "\<not> truthy (rustplusReconnecting c g) \<and> instances c g = Some inst
     \<and> activeServer inst = Some s \<and> s \<noteq> [] \<and> serverList inst s = Some e
     \<and> \<not> isCurrentlyConnected g c"
  let ?c0 = "log infoCap (AutoReconnecting g s)
                (if isLikelyServerRestartTime hour minute
                 then log infoCap (LikelyRestartTime g) c else c)"
  let ?c' = "checkGuildConnection g hour minute outcome rv c"
  have eq: "?c' = reconnectGuild g inst outcome rv ?c0"
    using q by (intro checkGuildConnection_qualifying) simp_all
  have e: "serverList inst (case activeServer inst of None \<Rightarrow> ''null'' | Some s \<Rightarrow> s) = Some e"
    using q by simp
  have A: "creations ?c' = creations c @ [CreateRustplusInstance g (serverIp e) (appPort e)
                                          (steamId e) (se_playerToken e)]"
    unfolding eq reconnectGuild_creations [OF e] by simp
  have flag: "rustplusReconnecting ?c' g
           = Some (case outcome of CreateReturns \<Rightarrow> True | CreateThrows msg \<Rightarrow> False)"
    unfolding eq by (rule reconnectGuild_flag [OF e])
  have B: "rustplusReconnecting ?c' g = Some True
             \<and> checkGuildConnection g hour' minute' outcome' rv' ?c' = ?c'"
    if "outcome = CreateReturns"
  proof -
    have t: "rustplusReconnecting ?c' g = Some True" using flag that by simp
    then have "truthy (rustplusReconnecting ?c' g)" by (simp add: truthy_def)
    then show ?thesis using t by (simp add: checkGuildConnection_skips)
  qed
  have C: "\<forall>msg. outcome = CreateThrows msg \<longrightarrow> rustplusReconnecting ?c' g = Some False"
    using flag by auto
  have D: "timers ?c' = timers c \<and> stateObjects ?c' = stateObjects c
                \<and> reconnectionStates ?c' = reconnectionStates c"
    if rv: "\<forall>x. timers (rv g x) = timers x \<and> stateObjects (rv g x) = stateObjects x
                  \<and> reconnectionStates (rv g x) = reconnectionStates x"
  proof -
    have "timers (reconnectGuild g inst outcome rv ?c0) = timers ?c0
       \<and> stateObjects (reconnectGuild g inst outcome rv ?c0) = stateObjects ?c0
       \<and> reconnectionStates (reconnectGuild g inst outcome rv ?c0) = reconnectionStates ?c0"
      using rv by (intro reconnectGuild_manager_untouched) blast
    then show ?thesis unfolding eq by (simp add: log_def)
  qed
  show "let c' = ?c' in
           creations c' = creations c @ [CreateRustplusInstance g (serverIp e) (appPort e)
                                          (steamId e) (se_playerToken e)]
         \<and> (outcome = CreateReturns \<longrightarrow>
               rustplusReconnecting c' g = Some True
             \<and> checkGuildConnection g hour' minute' outcome' rv' c' = c')
         \<and> (\<forall>msg. outcome = CreateThrows msg \<longrightarrow> rustplusReconnecting c' g = Some False)
         \<and> ((\<forall>x. timers (rv g x) = timers x \<and> stateObjects (rv g x) = stateObjects x
                  \<and> reconnectionStates (rv g x) = reconnectionStates x)
             \<longrightarrow> timers c' = timers c \<and> stateObjects c' = stateObjects c
                \<and> reconnectionStates c' = reconnectionStates c)"
    unfolding Let_def using A B C D by blast
next
  assume "truthy (rustplusReconnecting c g) \<or> isCurrentlyConnected g c
       \<or> (case instances c g of
             None \<Rightarrow> True
           | Some inst \<Rightarrow>
               (case activeServer inst of
                  None \<Rightarrow> True
                | Some s \<Rightarrow> s = [] \<or> serverList inst s = None))"
  then show "checkGuildConnection g hour minute outcome rv c = c"
    by (rule checkGuildConnection_skips)
qed

theorem sweep_reconnects_directly_witness:
  "\<not> truthy (rustplusReconnecting configuredBot ''guild'')
   \<and> instances configuredBot ''guild'' = Some someInstance
   \<and> activeServer someInstance = Some ''srv1''
   \<and> serverList someInstance ''srv1'' = Some someEntry
   \<and> \<not> isCurrentlyConnected ''guild'' configuredBot
   \<and> creations sweptBot
       = [CreateRustplusInstance ''guild'' ''203.0.113.7'' 28082 ''76561198000000000'' ''1234567'']
   \<and> rustplusReconnecting sweptBot ''guild'' = Some True
   \<and> checkGuildConnection ''guild'' 12 31 CreateReturns noReset sweptBot = sweptBot
   \<and> timers sweptBot = timers configuredBot
   \<and> truthy (rustplusReconnecting sweptBot ''guild'')
   \<and> checkGuildConnection ''guild'' 12 32 (CreateThrows ''ECONNREFUSED'') noReset sweptBot
       = sweptBot"
proof -
  have q: "\<not> truthy (rustplusReconnecting configuredBot ''guild'')
     \<and> instances configuredBot ''guild'' = Some someInstance
     \<and> activeServer someInstance = Some ''srv1'' \<and> ''srv1'' \<noteq> []
     \<and> serverList someInstance ''srv1'' = Some someEntry
     \<and> \<not> isCurrentlyConnected ''guild'' configuredBot"
    by (simp add: configuredBot_eq someInstance_def someEntry_def truthy_def
        isCurrentlyConnected_def)
  have nr: "\<forall>x. timers (noReset ''guild'' x) = timers x
              \<and> stateObjects (noReset ''guild'' x) = stateObjects x
              \<and> reconnectionStates (noReset ''guild'' x) = reconnectionStates x"
    by (simp add: noReset_def)
  have t: "truthy (rustplusReconnecting sweptBot ''guild'')
       \<or> isCurrentlyConnected ''guild'' sweptBot
       \<or> (case instances sweptBot ''guild'' of
             None \<Rightarrow> True
           | Some inst \<Rightarrow>
               (case activeServer inst of
                  None \<Rightarrow> True
                | Some s \<Rightarrow> s = [] \<or> serverList inst s = None))"
    by (simp add: sweptBot_eq truthy_def)
  note T1 = sweep_reconnects_directly
      [where c = configuredBot and g = "''guild''" and inst = someInstance and s = "''srv1''"
         and e = someEntry and hour = 12 and minute = 30 and outcome = CreateReturns
         and rv = noReset and hour' = 12 and minute' = 31 and outcome' = CreateReturns
         and rv' = noReset,
       THEN conjunct1, THEN mp, OF q, unfolded Let_def, folded sweptBot_def]
  note T2 = sweep_reconnects_directly
      [where c = sweptBot and g = "''guild''" and hour = 12 and minute = 32
         and outcome = "CreateThrows ''ECONNREFUSED''" and rv = noReset,
       THEN conjunct2, THEN mp, OF t]
  have c0: "creations configuredBot = []"
    by (simp add: creations_def configuredBot_eq)
  show ?thesis
    using q T1 T2 nr c0 by (simp add: someEntry_def truthy_def)
qed


text \<open>
  The claim C7 as first stated (the sweep issues a reconnection request with reason
  \<open>reconciliation_drift\<close>) fails on a qualifying sweep: the tenant gets no retry state
  and no timer, and nothing is logged by \<open>attemptReconnection\<close>; what the sweep does
  is call the factory.
\<close>

theorem sweep_issues_no_request:
  "\<not> truthy (rustplusReconnecting configuredBot ''guild'')
   \<and> \<not> isCurrentlyConnected ''guild'' configuredBot
   \<and> instances configuredBot ''guild'' = Some someInstance
   \<and> activeServer someInstance = Some ''srv1''
   \<and> serverList someInstance ''srv1'' = Some someEntry
   \<and> reconnectionStates
        (checkGuildConnection ''guild'' 3 30 CreateReturns noReset configuredBot) ''guild'' = None
   \<and> timers (checkGuildConnection ''guild'' 3 30 CreateReturns noReset configuredBot) = []
   \<and> logs (checkGuildConnection ''guild'' 3 30 CreateReturns noReset configuredBot)
       = [(infoCap, LikelyRestartTime ''guild''),
          (infoCap, AutoReconnecting ''guild'' ''srv1''),
          (infoCap, StartingAutoReconnection ''guild'' ''srv1'' ''203.0.113.7'' 28082),
          (infoCap, AutoReconnectionInitiated ''guild'')]
   \<and> calls (checkGuildConnection ''guild'' 3 30 CreateReturns noReset configuredBot)
       = [ResetRustplusVariables ''guild'',
          CreateRustplusInstance ''guild'' ''203.0.113.7'' 28082 ''76561198000000000'' ''1234567'']"
  by (simp add: configuredBot_eq someInstance_def someEntry_def run_defs)


lemma forceReconnectGuild_active:
  assumes "instances c g = Some inst" and "activeServer inst = Some s" and "s \<noteq> []"
  shows "forceReconnectGuild g outcome rv c
           = reconnectGuild g inst outcome rv (log infoCap (ForceReconnecting g) c)"
  using assms by (simp add: forceReconnectGuild_def)

lemma reconnectGuild_disconnects:
  assumes "serverList inst (case activeServer inst of None \<Rightarrow> ''null'' | Some s \<Rightarrow> s) = Some e"
      and "rustplusInstances (rv g (log infoCap (StartingAutoReconnection g
              (case activeServer inst of None \<Rightarrow> ''null'' | Some s \<Rightarrow> s)
              (serverIp e) (appPort e)) c)) g = Some r"
  shows "Disconnect r \<in> set (calls (reconnectGuild g inst outcome rv c))"
  unfolding reconnectGuild_def createRustplusInstance_def Let_def
  using assms by (cases outcome) (simp_all add: log_def)

text \<open>
  C9 (amended). \<open>forceReconnectGuild\<close> checks neither the operational flag nor any
  reconnecting flag: whenever the instance of the tenant names an active server with
  an entry, it disconnects the registered connection, if any, and calls the
  connection factory. The guard is in its caller: \<open>handleAutoReconnectCommand\<close> does
  nothing for a tenant observed operational and otherwise runs
  \<open>forceReconnectGuild\<close>, also while a reconnection is in flight.
\<close>

theorem forceReconnect_unguarded:
  "(instances c g = Some inst \<and> activeServer inst = Some s \<and> s \<noteq> []
     \<and> serverList inst s = Some e
    \<longrightarrow> creations (forceReconnectGuild g outcome rv c)
          = creations c @ [CreateRustplusInstance g (serverIp e) (appPort e) (steamId e)
                             (se_playerToken e)]
        \<and> (\<forall>r. rustplusInstances
                  (rv g (log infoCap (StartingAutoReconnection g s (serverIp e) (appPort e))
                           (log infoCap (ForceReconnecting g) c))) g = Some r
               \<longrightarrow> Disconnect r \<in> set (calls (forceReconnectGuild g outcome rv c))))
   \<and> (isCurrentlyConnected g c \<longrightarrow> handleAutoReconnectCommand g outcome rv c = c)
   \<and> (\<not> isCurrentlyConnected g c \<longrightarrow>
        handleAutoReconnectCommand g outcome rv c = forceReconnectGuild g outcome rv c)"
proof (intro conjI impI allI)
  assume h: "instances c g = Some inst \<and> activeServer inst = Some s \<and> s \<noteq> []
     \<and> serverList inst s = Some e"
  then have eq: "forceReconnectGuild g outcome rv c
           = reconnectGuild g inst outcome rv (log infoCap (ForceReconnecting g) c)"
    using forceReconnectGuild_active [of c g inst s outcome rv] by blast
  have e: "serverList inst (case activeServer inst of None \<Rightarrow> ''null'' | Some s \<Rightarrow> s) = Some e"
    using h by simp
  show "creations (forceReconnectGuild g outcome rv c)
          = creations c @ [CreateRustplusInstance g (serverIp e) (appPort e) (steamId e)
                             (se_playerToken e)]"
    unfolding eq reconnectGuild_creations [OF e] by simp
  fix r
  assume r: "rustplusInstances
                  (rv g (log infoCap (StartingAutoReconnection g s (serverIp e) (appPort e))
                           (log infoCap (ForceReconnecting g) c))) g = Some r"
  show "Disconnect r \<in> set (calls (forceReconnectGuild g outcome rv c))"
    unfolding eq using r h by (intro reconnectGuild_disconnects [OF e]) simp
next
  assume "isCurrentlyConnected g c"
  then show "handleAutoReconnectCommand g outcome rv c = c"
    by (simp add: handleAutoReconnectCommand_def split: option.splits)
next
  assume "\<not> isCurrentlyConnected g c"
  then show "handleAutoReconnectCommand g outcome rv c = forceReconnectGuild g outcome rv c"
    by (simp add: handleAutoReconnectCommand_def forceReconnectGuild_def split: option.splits)
qed


theorem forceReconnect_unguarded_witness:
  "instances operationalBot ''guild'' = Some someInstance
   \<and> activeServer someInstance = Some ''srv1''
   \<and> serverList someInstance ''srv1'' = Some someEntry
   \<and> rustplusInstances operationalBot ''guild'' = Some 0
   \<and> isCurrentlyConnected ''guild'' operationalBot
   \<and> creations (forceReconnectGuild ''guild'' CreateReturns noReset operationalBot)
       = creations operationalBot
         @ [CreateRustplusInstance ''guild'' ''203.0.113.7'' 28082 ''76561198000000000'' ''1234567'']
   \<and> Disconnect 0 \<in> set (calls (forceReconnectGuild ''guild'' CreateReturns noReset operationalBot))
   \<and> handleAutoReconnectCommand ''guild'' CreateReturns noReset operationalBot = operationalBot
   \<and> \<not> isCurrentlyConnected ''guild'' sweptBot
   \<and> handleAutoReconnectCommand ''guild'' CreateReturns noReset sweptBot
       = forceReconnectGuild ''guild'' CreateReturns noReset sweptBot"
proof -
  have h: "instances operationalBot ''guild'' = Some someInstance
     \<and> activeServer someInstance = Some ''srv1'' \<and> ''srv1'' \<noteq> []
     \<and> serverList someInstance ''srv1'' = Some someEntry"
    by (simp add: operationalBot_eq someInstance_def someEntry_def)
  have r: "rustplusInstances
             (noReset ''guild'' (log infoCap
                (StartingAutoReconnection ''guild'' ''srv1'' (serverIp someEntry) (appPort someEntry))
                (log infoCap (ForceReconnecting ''guild'') operationalBot))) ''guild'' = Some 0"
    "rustplusInstances operationalBot ''guild'' = Some 0"
    by (simp_all add: operationalBot_eq noReset_def log_def)
  have c: "isCurrentlyConnected ''guild'' operationalBot"
    "\<not> isCurrentlyConnected ''guild'' sweptBot"
    by (simp_all add: operationalBot_eq sweptBot_eq isCurrentlyConnected_def truthy_def)
  note T = forceReconnect_unguarded
      [where c = operationalBot and g = "''guild''" and inst = someInstance and s = "''srv1''"
         and e = someEntry and outcome = CreateReturns and rv = noReset]
  note T1 = T [THEN conjunct1, THEN mp, OF h, THEN conjunct1]
  note T2 = T [THEN conjunct1, THEN mp, OF h, THEN conjunct2, rule_format, OF r(1)]
  note T3 = T [THEN conjunct2, THEN conjunct1, THEN mp, OF c(1)]
  note T4 = forceReconnect_unguarded
      [where c = sweptBot and g = "''guild''" and outcome = CreateReturns and rv = noReset,
       THEN conjunct2, THEN conjunct2, THEN mp, OF c(2)]
  show ?thesis
    using h r c T1 T2 T3 T4 by (simp add: someEntry_def)
qed

text \<open>
  The claim C9 as first stated fails for \<open>forceReconnectGuild\<close> on an operational
  tenant (the connection is disconnected, marked deleted and replaced) and on a
  tenant whose reconnection is in flight (the connection just created by the sweep is
  torn down and created again).
\<close>

theorem forceReconnect_tears_down_operational:
  "isCurrentlyConnected ''guild'' operationalBot
   \<and> rustplusInstances operationalBot ''guild'' = Some 0
   \<and> isOperational (rustplusObjects operationalBot 0)
   \<and> calls operationalBot
       = [CreateRustplusInstance ''guild'' ''203.0.113.7'' 28082 ''76561198000000000'' ''1234567'']
   \<and> calls (forceReconnectGuild ''guild'' CreateReturns noReset operationalBot)
       = [CreateRustplusInstance ''guild'' ''203.0.113.7'' 28082 ''76561198000000000'' ''1234567'',
          ResetRustplusVariables ''guild'', Disconnect 0,
          CreateRustplusInstance ''guild'' ''203.0.113.7'' 28082 ''76561198000000000'' ''1234567'']
   \<and> isDeleted (rustplusObjects (forceReconnectGuild ''guild'' CreateReturns noReset operationalBot) 0)
   \<and> rustplusInstances (forceReconnectGuild ''guild'' CreateReturns noReset operationalBot) ''guild''
       = Some 1
   \<and> truthy (rustplusReconnecting sweptBot ''guild'')
   \<and> calls sweptBot
       = [ResetRustplusVariables ''guild'',
          CreateRustplusInstance ''guild'' ''203.0.113.7'' 28082 ''76561198000000000'' ''1234567'']
   \<and> calls (forceReconnectGuild ''guild'' CreateReturns noReset sweptBot)
       = [ResetRustplusVariables ''guild'',
          CreateRustplusInstance ''guild'' ''203.0.113.7'' 28082 ''76561198000000000'' ''1234567'',
          ResetRustplusVariables ''guild'', Disconnect 0,
          CreateRustplusInstance ''guild'' ''203.0.113.7'' 28082 ''76561198000000000'' ''1234567'']"
  by (simp add: operationalBot_eq sweptBot_eq run_defs)

end
